theory Spec2Isabelle
  imports Complex_Main "HOL-Library.Product_Lexorder"
begin

section \<open>Tables and errors\<close>

text \<open>
  The engines of \<^verbatim>\<open>src/analytics\<close> work on pandas tables. A table is a list of rows,
  a row is a record of its columns. Customer keys are naturals (the generator's
  \<^verbatim>\<open>CUST_000001\<close> strings, compared only for equality and order). Dates are timestamps in
  seconds, so that \<^verbatim>\<open>.dt.days\<close> is floor division by 86400. Amounts are rationals:
  the floating-point rounding of pandas is not modelled.
\<close>

datatype error = ValueError | KeyError | UnboundLocalError | MergeError | TypeError

record order =
  order_id :: nat
  order_customer_id :: nat
  order_date :: int
  final_amount :: rat

record customer =
  customer_id :: nat
  signup_date :: int

definition days :: "int \<Rightarrow> int" where
  "days delta = delta div 86400"

definition timedelta :: "int \<Rightarrow> int" where
  "timedelta d = d * 86400"

text \<open>\<^verbatim>\<open>groupby('customer_id')\<close>: the distinct keys in ascending order, and the rows of a key.\<close>

definition group_keys :: "order list \<Rightarrow> nat list" where
  "group_keys orders = sort (remdups (map order_customer_id orders))"

definition orders_of :: "order list \<Rightarrow> nat \<Rightarrow> order list" where
  "orders_of orders c = filter (\<lambda>r. order_customer_id r = c) orders"

section \<open>Quantile scorer\<close>

text \<open>
  \<^verbatim>\<open>Series.rank(method='first', ascending=...)\<close>: the rank of the value at a position
  is one plus the number of values that come before it in the order asked for, plus the
  number of equal values at earlier positions (ties in order of appearance, in both
  directions).
\<close>

definition before :: "bool \<Rightarrow> 'a::linorder \<Rightarrow> 'a \<Rightarrow> bool" where
  "before ascending y x = (if ascending then y < x else x < y)"

definition rank_at :: "bool \<Rightarrow> 'a::linorder list \<Rightarrow> nat \<Rightarrow> nat" where
  "rank_at ascending xs i =
     Suc (length (filter (\<lambda>y. before ascending y (xs ! i)) xs)
          + length (filter (\<lambda>y. y = xs ! i) (take i xs)))"

definition rank_first :: "bool \<Rightarrow> 'a::linorder list \<Rightarrow> nat list" where
  "rank_first ascending xs = map (rank_at ascending xs) [0..<length xs]"

text \<open>
  \<^verbatim>\<open>Series.quantile\<close> with linear interpolation: at position \<open>h = (n - 1) * p\<close> of the
  sorted values.
\<close>

definition quantile :: "rat list \<Rightarrow> rat \<Rightarrow> rat" where
  "quantile xs p =
     (let s = sort xs;
          h = of_nat (length xs - 1) * p;
          lo = nat \<lfloor>h\<rfloor>;
          hi = min (Suc lo) (length xs - 1)
      in s ! lo + (h - of_int \<lfloor>h\<rfloor>) * (s ! hi - s ! lo))"

text \<open>
  \<^verbatim>\<open>pd.qcut(x, q, labels)\<close>: the bin edges are the quantiles at \<open>0, 1/q, ..., 1\<close>; edges
  that repeat raise (as do no values at all, whose edges are all NaN); a value belongs
  to the right-closed bin whose upper edge is the first edge not below it, the lowest
  edge counted to the first bin; a value in no bin would be NaN and fail the cast
  \<^verbatim>\<open>astype(int)\<close>.
\<close>

definition bin_edges :: "rat list \<Rightarrow> nat \<Rightarrow> rat list" where
  "bin_edges x q = map (\<lambda>k. quantile x (of_nat k / of_nat q)) [0..<Suc q]"

definition bin_id :: "rat list \<Rightarrow> rat \<Rightarrow> nat" where
  "bin_id bins v = (if v = bins ! 0 then 1 else length (filter (\<lambda>b. b < v) bins))"

definition qcut :: "rat list \<Rightarrow> nat \<Rightarrow> int list \<Rightarrow> error + int list" where
  "qcut x q labels =
     (if x = [] \<or> length labels \<noteq> q then Inl ValueError
      else let bins = bin_edges x q in
        if \<not> distinct bins then Inl ValueError
        else let ids = map (bin_id bins) x in
          if \<exists>i \<in> set ids. i = 0 \<or> q < i then Inl ValueError
          else Inr (map (\<lambda>i. labels ! (i - 1)) ids))"

section \<open>RFM engine\<close>

record rfm_row = customer +
  last_order_date :: "int option"
  frequency :: int
  monetary :: rat
  recency :: int
  R_score :: int
  F_score :: int
  M_score :: int
  RFM_score :: string
  RFM_avg_score :: rat
  segment :: "string option"

record RFMAnalyzer =
  reference_date :: int
  rfm_data :: "rfm_row list option"
  segments :: "(string \<times> nat) list option"

text \<open>\<^verbatim>\<open>astype(str)\<close> on an integer: its decimal digits.\<close>

definition digit_char :: "nat \<Rightarrow> char" where
  "digit_char d = char_of (48 + d)"

function str_nat :: "nat \<Rightarrow> string" where
  "str_nat n = (if n < 10 then [digit_char n] else str_nat (n div 10) @ [digit_char (n mod 10)])"
  by pat_completeness auto
termination
  by (relation "measure id") auto

definition str_int :: "int \<Rightarrow> string" where
  "str_int i = (if i < 0 then CHR ''-'' # str_nat (nat (- i)) else str_nat (nat i))"

text \<open>
  The aggregated table \<^verbatim>\<open>customer_rfm\<close>, one row per ordering customer, in key order:
  last order date, order count, total amount, recency in days and the three scores.
\<close>

record customer_rfm_row =
  crfm_customer_id :: nat
  crfm_last_order_date :: int
  crfm_frequency :: int
  crfm_monetary :: rat
  crfm_recency :: int
  crfm_R_score :: int
  crfm_F_score :: int
  crfm_M_score :: int

definition customer_rfm :: "int \<Rightarrow> order list \<Rightarrow> error + customer_rfm_row list" where
  "customer_rfm ref orders =
     (let keys = group_keys orders;
          last_dates = map (\<lambda>c. Max (set (map order_date (orders_of orders c)))) keys;
          freqs = map (\<lambda>c. int (length (orders_of orders c))) keys;
          mons = map (\<lambda>c. sum_list (map final_amount (orders_of orders c))) keys;
          recs = map (\<lambda>d. days (ref - d)) last_dates
      in case qcut (map of_nat (rank_first False recs)) 5 [5, 4, 3, 2, 1] of
           Inl e \<Rightarrow> Inl e
         | Inr rs \<Rightarrow>
        (case qcut (map of_nat (rank_first True freqs)) 5 [1, 2, 3, 4, 5] of
           Inl e \<Rightarrow> Inl e
         | Inr fs \<Rightarrow>
        (case qcut (map of_nat (rank_first True mons)) 5 [1, 2, 3, 4, 5] of
           Inl e \<Rightarrow> Inl e
         | Inr ms \<Rightarrow>
           Inr (map (\<lambda>i. \<lparr>crfm_customer_id = keys ! i,
                            crfm_last_order_date = last_dates ! i,
                            crfm_frequency = freqs ! i,
                            crfm_monetary = mons ! i,
                            crfm_recency = recs ! i,
                            crfm_R_score = rs ! i,
                            crfm_F_score = fs ! i,
                            crfm_M_score = ms ! i\<rparr>)
                    [0..<length keys]))))"

text \<open>
  The left merge onto the customer table and \<^verbatim>\<open>fillna\<close>: a customer with an aggregated
  row takes its values, a customer without one takes the defaults.
\<close>

definition merge_rfm :: "customer_rfm_row list \<Rightarrow> customer \<Rightarrow> rfm_row" where
  "merge_rfm agg c =
     (case find (\<lambda>a. crfm_customer_id a = customer_id c) agg of
        Some a \<Rightarrow>
          customer.extend c
            \<lparr>last_order_date = Some (crfm_last_order_date a),
             frequency = crfm_frequency a, monetary = crfm_monetary a,
             recency = crfm_recency a,
             R_score = crfm_R_score a, F_score = crfm_F_score a, M_score = crfm_M_score a,
             RFM_score = str_int (crfm_R_score a) @ str_int (crfm_F_score a) @ str_int (crfm_M_score a),
             RFM_avg_score = of_int (crfm_R_score a + crfm_F_score a + crfm_M_score a) / 3,
             segment = None\<rparr>
      | None \<Rightarrow>
          customer.extend c
            \<lparr>last_order_date = None, frequency = 0, monetary = 0, recency = 999,
             R_score = 1, F_score = 1, M_score = 1,
             RFM_score = ''111'', RFM_avg_score = 1, segment = None\<rparr>)"

text \<open>
  \<^verbatim>\<open>calculate_rfm_scores\<close>: the new analyzer and what the call returns. An error of the
  scorer is raised before \<^verbatim>\<open>self.rfm_data\<close> is assigned.
\<close>

definition calculate_rfm_scores ::
  "RFMAnalyzer \<Rightarrow> order list \<Rightarrow> customer list \<Rightarrow> RFMAnalyzer \<times> (error + rfm_row list)" where
  "calculate_rfm_scores self orders_df customers_df =
     (case customer_rfm (reference_date self) orders_df of
        Inl e \<Rightarrow> (self, Inl e)
      | Inr agg \<Rightarrow>
          (let tbl = map (merge_rfm agg) customers_df
           in (self\<lparr>rfm_data := Some tbl\<rparr>, Inr tbl)))"

text \<open>The segment rules (a dictionary) and the priority list of \<^verbatim>\<open>assign_segment\<close>.\<close>

type_synonym rule = "(int \<times> int) \<times> (int \<times> int) \<times> (int \<times> int)"

definition segment_rules :: "string \<rightharpoonup> rule" where
  "segment_rules = map_of
     [(''Champions'', ((4, 5), (4, 5), (4, 5))),
      (''Loyal Customers'', ((3, 5), (3, 5), (3, 5))),
      (''Potential Loyalists'', ((3, 5), (1, 3), (1, 3))),
      (''New Customers'', ((4, 5), (1, 1), (1, 1))),
      (''Promising'', ((3, 4), (1, 1), (1, 1))),
      (''Need Attention'', ((2, 3), (2, 3), (2, 3))),
      (''About to Sleep'', ((2, 3), (1, 2), (1, 2))),
      (''At Risk'', ((1, 2), (2, 5), (2, 5))),
      (''Cannot Lose Them'', ((1, 2), (4, 5), (4, 5))),
      (''Hibernating'', ((1, 2), (1, 2), (1, 2))),
      (''Lost'', ((1, 1), (1, 1), (1, 1)))]"

definition segment_priority :: "string list" where
  "segment_priority =
     [''Champions'', ''Loyal Customers'', ''Potential Loyalists'',
      ''New Customers'', ''Promising'', ''Cannot Lose Them'',
      ''At Risk'', ''Need Attention'', ''About to Sleep'',
      ''Hibernating'', ''Lost'']"

definition in_box :: "rule \<Rightarrow> int \<Rightarrow> int \<Rightarrow> int \<Rightarrow> bool" where
  "in_box rules r f m =
     (case rules of ((r0, r1), (f0, f1), (m0, m1)) \<Rightarrow>
        r0 \<le> r \<and> r \<le> r1 \<and> f0 \<le> f \<and> f \<le> f1 \<and> m0 \<le> m \<and> m \<le> m1)"

text \<open>The loop over the priority list; a name missing from the dictionary raises.\<close>

fun segment_loop :: "(string \<rightharpoonup> rule) \<Rightarrow> string list \<Rightarrow> int \<Rightarrow> int \<Rightarrow> int \<Rightarrow> error + string" where
  "segment_loop rules [] r f m = Inr ''Others''"
| "segment_loop rules (s # ss) r f m =
     (case rules s of
        None \<Rightarrow> Inl KeyError
      | Some b \<Rightarrow> if in_box b r f m then Inr s else segment_loop rules ss r f m)"

definition assign_segment :: "int \<Rightarrow> int \<Rightarrow> int \<Rightarrow> error + string" where
  "assign_segment r f m = segment_loop segment_rules segment_priority r f m"

fun apply_segment :: "rfm_row list \<Rightarrow> error + rfm_row list" where
  "apply_segment [] = Inr []"
| "apply_segment (row # rows) =
     (case assign_segment (R_score row) (F_score row) (M_score row) of
        Inl e \<Rightarrow> Inl e
      | Inr s \<Rightarrow>
          (case apply_segment rows of
             Inl e \<Rightarrow> Inl e
           | Inr rows' \<Rightarrow> Inr (row\<lparr>segment := Some s\<rparr> # rows')))"

text \<open>\<^verbatim>\<open>value_counts\<close>: each label with its number of rows (the order is left to pandas).\<close>

definition value_counts :: "string list \<Rightarrow> (string \<times> nat) list" where
  "value_counts xs = map (\<lambda>s. (s, length (filter (\<lambda>x. x = s) xs))) (remdups xs)"

definition assign_segments :: "RFMAnalyzer \<Rightarrow> RFMAnalyzer \<times> (error + rfm_row list)" where
  "assign_segments self =
     (case rfm_data self of
        None \<Rightarrow> (self, Inl ValueError)
      | Some rows \<Rightarrow>
          (case apply_segment rows of
             Inl e \<Rightarrow> (self, Inl e)
           | Inr rows' \<Rightarrow>
               (self\<lparr>rfm_data := Some rows',
                     segments := Some (value_counts (map (\<lambda>r. the (segment r)) rows'))\<rparr>,
                Inr rows')))"

section \<open>CLV engine\<close>

record clv_row = customer +
  total_spent :: rat
  avg_order_value :: rat
  purchase_frequency :: int
  first_purchase :: "int option"
  last_purchase :: "int option"
  customer_lifespan_days :: "int option"
  purchase_frequency_monthly :: rat
  predicted_lifespan_months :: rat
  historical_clv :: rat
  spending_growth_rate :: "rat option"
  trend_multiplier :: "rat option"
  predictive_clv :: "rat option"
  clv_percentile :: "rat option"
  clv_segment :: "string option"

text \<open>
  \<^verbatim>\<open>self.clv_data\<close>: the names of the columns the table has, and its rows. A row holds
  \<open>None\<close> in a column the table does not have (and for NaN).
\<close>

record clv_frame =
  clv_columns :: "string list"
  clv_rows :: "clv_row list"

record CLVAnalyzer =
  analysis_period :: int
  clv_data :: "clv_frame option"

definition clip :: "rat \<Rightarrow> rat \<Rightarrow> rat \<Rightarrow> rat" where
  "clip x lower upper = min (max x lower) upper"

text \<open>The per-customer statistics of \<^verbatim>\<open>calculate_historical_clv\<close>, in key order.\<close>

record customer_stats_row =
  cs_customer_id :: nat
  cs_total_spent :: rat
  cs_avg_order_value :: rat
  cs_purchase_frequency :: int
  cs_first_purchase :: int
  cs_last_purchase :: int
  cs_customer_lifespan_days :: int
  cs_purchase_frequency_monthly :: rat
  cs_predicted_lifespan_months :: rat
  cs_historical_clv :: rat

definition customer_stats :: "order list \<Rightarrow> customer_stats_row list" where
  "customer_stats orders =
     map (\<lambda>c.
       let os = orders_of orders c;
           total = sum_list (map final_amount os);
           cnt = int (length os);
           avg = total / of_int cnt;
           first = Min (set (map order_date os));
           last = Max (set (map order_date os));
           lifespan = max (days (last - first)) 1;
           monthly = of_int cnt / (of_int lifespan / (3044 / 100));
           predicted = clip (of_int lifespan / (3044 / 100) * (3 / 2)) 1 60
       in \<lparr>cs_customer_id = c, cs_total_spent = total, cs_avg_order_value = avg,
           cs_purchase_frequency = cnt, cs_first_purchase = first, cs_last_purchase = last,
           cs_customer_lifespan_days = lifespan,
           cs_purchase_frequency_monthly = monthly,
           cs_predicted_lifespan_months = predicted,
           cs_historical_clv = avg * monthly * predicted\<rparr>)
     (group_keys orders)"

definition merge_stats :: "customer_stats_row list \<Rightarrow> customer \<Rightarrow> clv_row" where
  "merge_stats stats c =
     (case find (\<lambda>s. cs_customer_id s = customer_id c) stats of
        Some s \<Rightarrow>
          customer.extend c
            \<lparr>total_spent = cs_total_spent s, avg_order_value = cs_avg_order_value s,
             purchase_frequency = cs_purchase_frequency s,
             first_purchase = Some (cs_first_purchase s),
             last_purchase = Some (cs_last_purchase s),
             customer_lifespan_days = Some (cs_customer_lifespan_days s),
             purchase_frequency_monthly = cs_purchase_frequency_monthly s,
             predicted_lifespan_months = cs_predicted_lifespan_months s,
             historical_clv = cs_historical_clv s,
             spending_growth_rate = None, trend_multiplier = None, predictive_clv = None,
             clv_percentile = None, clv_segment = None\<rparr>
      | None \<Rightarrow>
          customer.extend c
            \<lparr>total_spent = 0, avg_order_value = 0, purchase_frequency = 0,
             first_purchase = None, last_purchase = None, customer_lifespan_days = None,
             purchase_frequency_monthly = 0, predicted_lifespan_months = 12,
             historical_clv = 0,
             spending_growth_rate = None, trend_multiplier = None, predictive_clv = None,
             clv_percentile = None, clv_segment = None\<rparr>)"

definition historical_columns :: "string list" where
  "historical_columns =
     [''customer_id'', ''signup_date'', ''total_spent'', ''avg_order_value'',
      ''purchase_frequency'', ''first_purchase'', ''last_purchase'',
      ''customer_lifespan_days'', ''purchase_frequency_monthly'',
      ''predicted_lifespan_months'', ''historical_clv'']"

definition calculate_historical_clv ::
  "CLVAnalyzer \<Rightarrow> order list \<Rightarrow> customer list \<Rightarrow> CLVAnalyzer \<times> clv_row list" where
  "calculate_historical_clv self orders_df customers_df =
     (let tbl = map (merge_stats (customer_stats orders_df)) customers_df
      in (self\<lparr>clv_data := Some \<lparr>clv_columns = historical_columns, clv_rows = tbl\<rparr>\<rparr>, tbl))"

text \<open>
  The trend table of \<^verbatim>\<open>calculate_predictive_clv\<close>: one row per customer with an order
  in the last 180 days before the latest order date. With no orders at all the latest
  date is NaT, every comparison is false and the table is empty.
\<close>

definition six_months_ago :: "order list \<Rightarrow> int" where
  "six_months_ago orders = Max (set (map order_date orders)) - timedelta 180"

definition twelve_months_ago :: "order list \<Rightarrow> int" where
  "twelve_months_ago orders = Max (set (map order_date orders)) - timedelta 360"

definition recent_orders :: "order list \<Rightarrow> order list" where
  "recent_orders orders =
     (if orders = [] then []
      else filter (\<lambda>r. six_months_ago orders \<le> order_date r) orders)"

definition previous_orders :: "order list \<Rightarrow> order list" where
  "previous_orders orders =
     (if orders = [] then []
      else filter (\<lambda>r. twelve_months_ago orders \<le> order_date r
                        \<and> order_date r < six_months_ago orders) orders)"

record trend_row =
  tr_customer_id :: nat
  tr_recent_spending :: rat
  tr_previous_spending :: rat
  tr_spending_growth_rate :: rat
  tr_trend_multiplier :: rat

definition trend_data :: "order list \<Rightarrow> trend_row list" where
  "trend_data orders =
     map (\<lambda>c.
       let recent = sum_list (map final_amount (orders_of (recent_orders orders) c));
           previous = (if c \<in> set (group_keys (previous_orders orders))
                       then sum_list (map final_amount (orders_of (previous_orders orders) c))
                       else 0);
           growth = (if previous > 0 then (recent - previous) / previous else 0)
       in \<lparr>tr_customer_id = c, tr_recent_spending = recent, tr_previous_spending = previous,
           tr_spending_growth_rate = growth,
           tr_trend_multiplier = clip (1 + growth * (1 / 2)) (1 / 2) 2\<rparr>)
     (group_keys (recent_orders orders))"

text \<open>
  The left merge of the two trend columns. A column name that both tables have is
  renamed by pandas (\<open>_x\<close> on the left, \<open>_y\<close> on the right), so the column of that name
  is gone from the result; left names that collide after the renaming raise (pandas 2).
  Otherwise the column takes the trend value, and \<^verbatim>\<open>fillna\<close> gives a customer without
  a trend row growth 0 and multiplier 1.
\<close>

definition trend_columns :: "string list" where
  "trend_columns = [''spending_growth_rate'', ''trend_multiplier'']"

definition left_labels :: "string list \<Rightarrow> string list" where
  "left_labels cols = map (\<lambda>c. if c \<in> set trend_columns then c @ ''_x'' else c) cols"

definition right_labels :: "string list \<Rightarrow> string list" where
  "right_labels cols = map (\<lambda>c. if c \<in> set cols then c @ ''_y'' else c) trend_columns"

definition merge_trend :: "string list \<Rightarrow> trend_row list \<Rightarrow> clv_row \<Rightarrow> clv_row" where
  "merge_trend cols trend r =
     (let t = find (\<lambda>t. tr_customer_id t = customer_id r) trend;
          growth = (case t of Some t \<Rightarrow> tr_spending_growth_rate t | None \<Rightarrow> 0);
          mult = (case t of Some t \<Rightarrow> tr_trend_multiplier t | None \<Rightarrow> 1)
      in r\<lparr>spending_growth_rate :=
               (if ''spending_growth_rate'' \<in> set cols then None else Some growth),
            trend_multiplier :=
               (if ''trend_multiplier'' \<in> set cols then None else Some mult)\<rparr>)"

definition add_column :: "string \<Rightarrow> string list \<Rightarrow> string list" where
  "add_column c cols = (if c \<in> set cols then cols else cols @ [c])"

definition calculate_predictive_clv ::
  "CLVAnalyzer \<Rightarrow> order list \<Rightarrow> CLVAnalyzer \<times> (error + clv_row list)" where
  "calculate_predictive_clv self orders_df =
     (case clv_data self of
        None \<Rightarrow> (self, Inl ValueError)
      | Some df \<Rightarrow>
          (let cols = clv_columns df in
           if ''customer_id'' \<notin> set cols then (self, Inl KeyError)
           else if distinct cols \<and> \<not> distinct (left_labels cols) then (self, Inl MergeError)
           else
             (let merged_cols = left_labels cols @ right_labels cols;
                  merged_rows = map (merge_trend cols (trend_data orders_df)) (clv_rows df);
                  merged = \<lparr>clv_columns = merged_cols, clv_rows = merged_rows\<rparr>
              in if ''historical_clv'' \<notin> set merged_cols \<or> ''trend_multiplier'' \<notin> set merged_cols
                 then (self\<lparr>clv_data := Some merged\<rparr>, Inl KeyError)
                 else
                   (let rows = map (\<lambda>r. r\<lparr>predictive_clv :=
                                 map_option (\<lambda>m. historical_clv r * m) (trend_multiplier r)\<rparr>)
                               merged_rows
                    in (self\<lparr>clv_data := Some \<lparr>clv_columns = add_column ''predictive_clv'' merged_cols,
                                                 clv_rows = rows\<rparr>\<rparr>,
                        Inr rows)))))"

text \<open>
  \<^verbatim>\<open>rank(pct=True)\<close>: the average rank of a value among the values that are not NaN,
  divided by their number.
\<close>

definition rank_pct :: "rat option list \<Rightarrow> rat option list" where
  "rank_pct xs =
     (let vals = List.map_filter id xs in
      map (map_option (\<lambda>v.
             (of_nat (length (filter (\<lambda>y. y < v) vals))
               + (of_nat (length (filter (\<lambda>y. y = v) vals)) + 1) / 2)
             / of_nat (length vals)))
          xs)"

definition assign_clv_segment :: "rat option \<Rightarrow> string" where
  "assign_clv_segment percentile =
     (case percentile of
        None \<Rightarrow> ''Low Value''
      | Some p \<Rightarrow>
          if p \<ge> 8 / 10 then ''High Value''
          else if p \<ge> 2 / 10 then ''Medium Value''
          else ''Low Value'')"

definition segment_customers_by_clv :: "CLVAnalyzer \<Rightarrow> CLVAnalyzer \<times> (error + clv_row list)" where
  "segment_customers_by_clv self =
     (case clv_data self of
        None \<Rightarrow> (self, Inl ValueError)
      | Some df \<Rightarrow>
          if ''predictive_clv'' \<notin> set (clv_columns df) then (self, Inl KeyError)
          else
            (let pct = rank_pct (map predictive_clv (clv_rows df));
                 rows = map (\<lambda>(r, p). r\<lparr>clv_percentile := p,
                                          clv_segment := Some (assign_clv_segment p)\<rparr>)
                            (zip (clv_rows df) pct);
                 cols = add_column ''clv_segment'' (add_column ''clv_percentile'' (clv_columns df));
                 self' = self\<lparr>clv_data := Some \<lparr>clv_columns = cols, clv_rows = rows\<rparr>\<rparr>
             in if ''customer_id'' \<notin> set cols \<or> ''total_spent'' \<notin> set cols
                then (self', Inl KeyError)
                else (self', Inr rows)))"

section \<open>Cohort engine\<close>

text \<open>
  \<^verbatim>\<open>dt.to_period(freq)\<close> as the ordinal of the calendar period that holds a timestamp:
  the month counted from January 1970, the Monday-to-Sunday week, or the day. The engine
  only subtracts ordinals of one frequency.
\<close>

definition civil_year_month :: "int \<Rightarrow> int \<times> int" where
  "civil_year_month d =
     (let z = d + 719468;
          era = z div 146097;
          doe = z mod 146097;
          yoe = (doe - doe div 1460 + doe div 36524 - doe div 146096) div 365;
          doy = doe - (365 * yoe + yoe div 4 - yoe div 100);
          mp = (5 * doy + 2) div 153;
          m = (if mp < 10 then mp + 3 else mp - 9)
      in (yoe + era * 400 + (if m \<le> 2 then 1 else 0), m))"

definition to_period :: "string \<Rightarrow> int \<Rightarrow> int" where
  "to_period freq t =
     (if freq = ''M'' then (case civil_year_month (days t) of (y, m) \<Rightarrow> (y - 1970) * 12 + (m - 1))
      else if freq = ''W'' then (days t + 3) div 7
      else days t)"

definition period_freq :: "string \<Rightarrow> string" where
  "period_freq period_type =
     (if period_type = ''monthly'' then ''M''
      else if period_type = ''weekly'' then ''W''
      else ''D'')"

record cohort_row =
  cohort_group :: int
  period_number :: int
  active_customers :: nat
  total_customers :: nat
  retention_rate :: rat

text \<open>
  The stored tables carry the dtype of their period numbers: the column
  \<^verbatim>\<open>period_number\<close> is float64 when some order has no customer row (its period number
  is NaN), and int64 otherwise; the pivot takes its column labels from it.
\<close>

record cohort_frame =
  period_number_float :: bool
  cohort_rows :: "cohort_row list"

record retention =
  rt_float_labels :: bool
  rt_index :: "int list"
  rt_columns :: "int list"
  rt_values :: "rat list list"

record CohortAnalyzer =
  period_type :: string
  cohort_data :: "cohort_frame option"
  retention_table :: "retention option"

text \<open>
  The left merge of the orders with the customers' cohort groups: one row for each
  customer row of the order's key, or one row without a cohort group when the key is
  not in the customer table. \<^verbatim>\<open>get_period_number\<close> is NaN on such a row.
\<close>

record joined_row =
  j_customer_id :: nat
  j_cohort_group :: "int option"
  j_order_period :: int
  j_period_number :: "int option"

definition get_period_number :: "int option \<Rightarrow> int \<Rightarrow> int option" where
  "get_period_number cohort order_period =
     (case cohort of None \<Rightarrow> None | Some g \<Rightarrow> Some (order_period - g))"

definition join_cohorts :: "string \<Rightarrow> customer list \<Rightarrow> order list \<Rightarrow> joined_row list" where
  "join_cohorts freq customers_df orders_df =
     concat (map (\<lambda>r.
       let p = to_period freq (order_date r);
           gs = map (\<lambda>c. Some (to_period freq (signup_date c)))
                    (filter (\<lambda>c. customer_id c = order_customer_id r) customers_df)
       in map (\<lambda>g. \<lparr>j_customer_id = order_customer_id r, j_cohort_group = g,
                      j_order_period = p, j_period_number = get_period_number g p\<rparr>)
              (if gs = [] then [None] else gs))
       orders_df)"

text \<open>\<^verbatim>\<open>groupby(...)['customer_id'].nunique()\<close>; rows with a NaN key are left out.\<close>

definition cohort_sizes :: "string \<Rightarrow> customer list \<Rightarrow> (int \<times> nat) list" where
  "cohort_sizes freq customers_df =
     map (\<lambda>g. (g, length (remdups (map customer_id
                   (filter (\<lambda>c. to_period freq (signup_date c) = g) customers_df)))))
         (sort (remdups (map (\<lambda>c. to_period freq (signup_date c)) customers_df)))"

definition cohort_keys :: "joined_row list \<Rightarrow> (int \<times> int) list" where
  "cohort_keys rows =
     sort (remdups (concat (map (\<lambda>r.
       case (j_cohort_group r, j_period_number r) of
         (Some g, Some p) \<Rightarrow> [(g, p)]
       | _ \<Rightarrow> []) rows)))"

definition active_in :: "joined_row list \<Rightarrow> int \<Rightarrow> int \<Rightarrow> nat" where
  "active_in rows g p =
     length (remdups (map j_customer_id
       (filter (\<lambda>r. j_cohort_group r = Some g \<and> j_period_number r = Some p) rows)))"

definition cohort_table :: "string \<Rightarrow> customer list \<Rightarrow> order list \<Rightarrow> cohort_row list" where
  "cohort_table freq customers_df orders_df =
     (let rows = join_cohorts freq customers_df orders_df in
      concat (map (\<lambda>(g, p).
        map (\<lambda>(g', total).
               \<lparr>cohort_group = g, period_number = p,
                active_customers = active_in rows g p, total_customers = total,
                retention_rate = of_nat (active_in rows g p) / of_nat total\<rparr>)
            (filter (\<lambda>(g', total). g' = g) (cohort_sizes freq customers_df)))
        (cohort_keys rows)))"

definition create_signup_cohorts ::
  "CohortAnalyzer \<Rightarrow> customer list \<Rightarrow> order list \<Rightarrow> CohortAnalyzer \<times> cohort_row list" where
  "create_signup_cohorts self customers_df orders_df =
     (let freq = period_freq (period_type self);
          tbl = cohort_table freq customers_df orders_df;
          is_float = (\<exists>r \<in> set (join_cohorts freq customers_df orders_df).
                        j_period_number r = None)
      in (self\<lparr>cohort_data := Some \<lparr>period_number_float = is_float, cohort_rows = tbl\<rparr>\<rparr>,
          tbl))"

text \<open>
  \<^verbatim>\<open>pivot_table\<close>: rows are the cohort groups, columns the period numbers, both in
  ascending order; a cell is the mean retention rate of its pair, 0 when the pair has
  no row.
\<close>

definition pivot_cell :: "cohort_row list \<Rightarrow> int \<Rightarrow> int \<Rightarrow> rat" where
  "pivot_cell rows g p =
     (let rs = map retention_rate
                 (filter (\<lambda>r. cohort_group r = g \<and> period_number r = p) rows)
      in if rs = [] then 0 else sum_list rs / of_nat (length rs))"

definition pivot_table :: "cohort_frame \<Rightarrow> retention" where
  "pivot_table df =
     (let rows = cohort_rows df;
          idx = sort (remdups (map cohort_group rows));
          cols = sort (remdups (map period_number rows))
      in \<lparr>rt_float_labels = period_number_float df, rt_index = idx, rt_columns = cols,
          rt_values = map (\<lambda>g. map (\<lambda>p. pivot_cell rows g p) cols) idx\<rparr>)"

definition create_retention_table :: "CohortAnalyzer \<Rightarrow> CohortAnalyzer \<times> (error + retention)" where
  "create_retention_table self =
     (case cohort_data self of
        None \<Rightarrow> (self, Inl ValueError)
      | Some df \<Rightarrow>
          (let rt = pivot_table df in (self\<lparr>retention_table := Some rt\<rparr>, Inr rt)))"

text \<open>
  Python values of \<^verbatim>\<open>get_cohort_insights\<close>: a local variable is unbound (\<open>None\<close> of the
  option), or bound to Python's \<^verbatim>\<open>None\<close>, to NaN (the mean of no rows) or to a number.
\<close>

datatype pyval = PyNone | NaN | Val rat

definition truthy :: "pyval \<Rightarrow> bool" where
  "truthy v = (case v of PyNone \<Rightarrow> False | NaN \<Rightarrow> True | Val r \<Rightarrow> r \<noteq> 0)"

definition py_ge :: "pyval \<Rightarrow> rat \<Rightarrow> bool" where
  "py_ge v c = (case v of Val r \<Rightarrow> c \<le> r | _ \<Rightarrow> False)"

definition py_lt :: "pyval \<Rightarrow> rat \<Rightarrow> bool" where
  "py_lt v c = (case v of Val r \<Rightarrow> r < c | _ \<Rightarrow> False)"

definition py_le :: "pyval \<Rightarrow> rat \<Rightarrow> bool" where
  "py_le v c = (case v of Val r \<Rightarrow> r \<le> c | _ \<Rightarrow> False)"

definition py_sub :: "pyval \<Rightarrow> pyval \<Rightarrow> pyval" where
  "py_sub a b = (case (a, b) of (Val x, Val y) \<Rightarrow> Val (x - y) | _ \<Rightarrow> NaN)"

definition mean :: "rat list \<Rightarrow> pyval" where
  "mean xs = (if xs = [] then NaN else Val (sum_list xs / of_nat (length xs)))"

definition column_values :: "retention \<Rightarrow> int \<Rightarrow> rat list" where
  "column_values rt p =
     map (\<lambda>row. row ! length (takeWhile (\<lambda>c. c \<noteq> p) (rt_columns rt))) (rt_values rt)"

datatype business_insight =
  Retention_1_month_good | Retention_1_month_fair | Retention_1_month_low
  | Decline_stable | Decline_sharp

datatype recommendation =
  Improve_onboarding | Strengthen_follow_up | Collect_feedback
  | Develop_retention_program | Personalised_campaigns | Consider_loyalty_program
  | Cohort_marketing_strategy | Early_churn_detection | Lifecycle_service_improvement

record cohort_perf =
  initial_retention :: rat
  avg_retention :: pyval
  retention_decline :: rat

record insights =
  retention_trends :: "(pyval \<times> pyval \<times> pyval) option"
  cohort_performance :: "(int \<times> cohort_perf) list"
  business_insights :: "business_insight list"
  recommendations :: "recommendation list"

text \<open>
  \<^verbatim>\<open>valid_data[1:]\<close> on a row of the retention table (pandas 2): with integer labels
  the slice is by position and drops the first cell; with float labels it is by label
  and keeps the cells of the periods from 1 on. \<^verbatim>\<open>iloc\<close> is by position in both.
\<close>

definition slice_from_1 :: "retention \<Rightarrow> rat list \<Rightarrow> rat list" where
  "slice_from_1 rt valid_data =
     (if rt_float_labels rt
      then map snd (filter (\<lambda>(p, v). 1 \<le> p) (zip (rt_columns rt) valid_data))
      else drop 1 valid_data)"

definition performance_of :: "retention \<Rightarrow> (int \<times> cohort_perf) list" where
  "performance_of rt =
     concat (map (\<lambda>(cohort, valid_data).
       if length valid_data > 1
       then [(cohort, \<lparr>initial_retention = valid_data ! 1,
                       avg_retention = mean (slice_from_1 rt valid_data),
                       retention_decline = valid_data ! 1 - last valid_data\<rparr>)]
       else [])
       (zip (rt_index rt) (rt_values rt)))"

definition insights_1_month :: "pyval \<Rightarrow> business_insight list" where
  "insights_1_month m1 =
     (if truthy m1 then
        (if py_ge m1 (5 / 10) then [Retention_1_month_good]
         else if py_ge m1 (3 / 10) then [Retention_1_month_fair]
         else [Retention_1_month_low])
      else [])"

definition insights_decline :: "pyval \<Rightarrow> pyval \<Rightarrow> business_insight list" where
  "insights_decline m1 m3 =
     (if truthy m3 \<and> truthy m1 then
        (if py_le (py_sub m1 m3) (2 / 10) then [Decline_stable] else [Decline_sharp])
      else [])"

definition recommend :: "pyval \<Rightarrow> pyval \<Rightarrow> recommendation list" where
  "recommend m1 m3 =
     (if truthy m1 \<and> py_lt m1 (4 / 10)
      then [Improve_onboarding, Strengthen_follow_up, Collect_feedback] else [])
     @ (if truthy m3 \<and> py_lt m3 (2 / 10)
        then [Develop_retention_program, Personalised_campaigns, Consider_loyalty_program] else [])
     @ [Cohort_marketing_strategy, Early_churn_detection, Lifecycle_service_improvement]"

text \<open>
  \<^verbatim>\<open>get_cohort_insights\<close>. The three retention variables are bound only in the branch
  for more than one column; there the read of column 1 raises when the table has no
  such column. The later read of an unbound variable raises UnboundLocalError.
\<close>

definition get_cohort_insights :: "CohortAnalyzer \<Rightarrow> error + insights" where
  "get_cohort_insights self =
     (case retention_table self of
        None \<Rightarrow> Inl ValueError
      | Some rt \<Rightarrow>
          (let cols = rt_columns rt in
           if length cols > 1 \<and> 1 \<notin> set cols then Inl KeyError
           else
             (let month_1_retention =
                    (if length cols > 1 then Some (mean (column_values rt 1)) else None);
                  month_3_retention =
                    (if length cols > 1
                     then Some (if 3 \<in> set cols then mean (column_values rt 3) else PyNone)
                     else None);
                  month_6_retention =
                    (if length cols > 1
                     then Some (if 6 \<in> set cols then mean (column_values rt 6) else PyNone)
                     else None)
              in case (month_1_retention, month_3_retention, month_6_retention) of
                   (Some m1, Some m3, Some m6) \<Rightarrow>
                     Inr \<lparr>retention_trends = Some (m1, m3, m6),
                          cohort_performance = performance_of rt,
                          business_insights = insights_1_month m1 @ insights_decline m1 m3,
                          recommendations = recommend m1 m3\<rparr>
                 | _ \<Rightarrow> Inl UnboundLocalError)))"

section \<open>Behavioral segment names\<close>

datatype segment_name =
  VIP | Past_VIP | Loyal | At_risk | High_spend | Dormant_high_spend | New_general
  | Low_engagement

record profile =
  segment_id :: nat
  frequency_mean :: rat
  frequency_count :: nat
  monetary_mean :: rat
  monetary_count :: nat
  recency_mean :: rat
  recency_count :: nat

definition average :: "rat list \<Rightarrow> rat" where
  "average xs = sum_list xs / of_nat (length xs)"

text \<open>
  The profile table of \<^verbatim>\<open>behavioral_segmentation\<close>: per cluster id, in ascending order,
  the rounded mean and the count of each feature. The cluster ids are those k-means
  gave the rows, one per row. \<^verbatim>\<open>round(2)\<close> rounds a floating-point mean, which the
  rationals of this model do not follow at a tie of the binary value; the rounding is a
  parameter \<open>round2\<close>, and the naming below takes the profile table as it is.
\<close>

definition segment_profiles :: "(rat \<Rightarrow> rat) \<Rightarrow> rfm_row list \<Rightarrow> nat list \<Rightarrow> profile list" where
  "segment_profiles round2 rfm cluster_labels =
     map (\<lambda>k.
       let rows = map fst (filter (\<lambda>(r, l). l = k) (zip rfm cluster_labels))
       in \<lparr>segment_id = k,
           frequency_mean = round2 (average (map (\<lambda>r. of_int (frequency r)) rows)),
           frequency_count = length rows,
           monetary_mean = round2 (average (map monetary rows)),
           monetary_count = length rows,
           recency_mean = round2 (average (map (\<lambda>r. of_int (recency r)) rows)),
           recency_count = length rows\<rparr>)
     (sort (remdups (take (length rfm) cluster_labels)))"

definition assign_behavioral_segment_names :: "profile list \<Rightarrow> (nat \<times> segment_name) list" where
  "assign_behavioral_segment_names profiles =
     map (\<lambda>p.
       let freq_mean = frequency_mean p;
           mon_mean = monetary_mean p;
           rec_mean = recency_mean p;
           freq_overall = average (map frequency_mean profiles);
           monetary_overall = average (map monetary_mean profiles);
           recency_overall = average (map recency_mean profiles)
       in (segment_id p,
           if freq_mean > freq_overall \<and> mon_mean > monetary_overall then
             (if rec_mean < recency_overall then VIP else Past_VIP)
           else if freq_mean > freq_overall then
             (if rec_mean < recency_overall then Loyal else At_risk)
           else if mon_mean > monetary_overall then
             (if rec_mean < recency_overall then High_spend else Dormant_high_spend)
           else
             (if rec_mean < recency_overall then New_general else Low_engagement)))
     profiles"

text \<open>The names the rows of a clustering get: the dictionary applied to each cluster id.\<close>

definition behavioral_segment_names ::
  "(rat \<Rightarrow> rat) \<Rightarrow> rfm_row list \<Rightarrow> nat list \<Rightarrow> (nat \<rightharpoonup> segment_name)" where
  "behavioral_segment_names round2 rfm cluster_labels =
     map_of (assign_behavioral_segment_names (segment_profiles round2 rfm cluster_labels))"

section \<open>The tables passed to the engines\<close>

text \<open>
  The engines assign columns on the tables they are given, which are the caller's
  objects. Here a table is its columns in order, each a name with its cells. This part
  of the model records what a call does to its argument tables; the results of the call
  are computed by the functions above.
\<close>

datatype cell = Text string | Number rat | Date int | Datetime int | Period int | NaT

type_synonym frame = "(string \<times> cell list) list"

definition get_column :: "frame \<Rightarrow> string \<Rightarrow> error + cell list" where
  "get_column df c = (case map_of df c of None \<Rightarrow> Inl KeyError | Some col \<Rightarrow> Inr col)"

definition set_column :: "frame \<Rightarrow> string \<Rightarrow> cell list \<Rightarrow> frame" where
  "set_column df c col =
     (if c \<in> fst ` set df
      then map (\<lambda>(n, v). if n = c then (n, col) else (n, v)) df
      else df @ [(c, col)])"

text \<open>
  \<^verbatim>\<open>pd.to_datetime\<close> on a column: datetimes and NaT stay, a \<^verbatim>\<open>date\<close> object (a day
  number, as the generator writes them) becomes the datetime of its midnight, a text is
  parsed (the parser is a parameter) and raises when it is no date, a number counts
  nanoseconds, a period raises.
\<close>

fun to_datetime :: "(string \<Rightarrow> int option) \<Rightarrow> cell list \<Rightarrow> error + cell list" where
  "to_datetime parse [] = Inr []"
| "to_datetime parse (x # xs) =
     (case (case x of
              Datetime t \<Rightarrow> Inr (Datetime t)
            | NaT \<Rightarrow> Inr NaT
            | Date d \<Rightarrow> Inr (Datetime (timedelta d))
            | Text s \<Rightarrow> (case parse s of Some t \<Rightarrow> Inr (Datetime t) | None \<Rightarrow> Inl ValueError)
            | Number r \<Rightarrow> Inr (Datetime \<lfloor>r / 1000000000\<rfloor>)
            | Period p \<Rightarrow> Inl TypeError) of
        Inl e \<Rightarrow> Inl e
      | Inr y \<Rightarrow> (case to_datetime parse xs of Inl e \<Rightarrow> Inl e | Inr ys \<Rightarrow> Inr (y # ys)))"

text \<open>\<^verbatim>\<open>df[c] = pd.to_datetime(df[c])\<close>\<close>

definition convert_column :: "(string \<Rightarrow> int option) \<Rightarrow> string \<Rightarrow> frame \<Rightarrow> error + frame" where
  "convert_column parse c df =
     (case get_column df c of
        Inl e \<Rightarrow> Inl e
      | Inr col \<Rightarrow>
          (case to_datetime parse col of
             Inl e \<Rightarrow> Inl e
           | Inr col' \<Rightarrow> Inr (set_column df c col')))"

text \<open>\<^verbatim>\<open>df[c'] = df[c].dt.to_period(freq)\<close>, on a column that was converted before.\<close>

definition period_cell :: "string \<Rightarrow> cell \<Rightarrow> cell" where
  "period_cell freq x = (case x of Datetime t \<Rightarrow> Period (to_period freq t) | _ \<Rightarrow> NaT)"

definition assign_period :: "string \<Rightarrow> string \<Rightarrow> string \<Rightarrow> frame \<Rightarrow> frame" where
  "assign_period freq c c' df =
     (case map_of df c of
        None \<Rightarrow> df
      | Some col \<Rightarrow> set_column df c' (map (period_cell freq) col))"

text \<open>
  The argument tables \<open>(orders_df, customers_df)\<close> after the assignments with which
  each operation starts, and the error when one of them raises. After them an operation
  reads its arguments only.
\<close>

definition calculate_rfm_scores_tables ::
  "(string \<Rightarrow> int option) \<Rightarrow> frame \<Rightarrow> frame \<Rightarrow> (frame \<times> frame) \<times> error option" where
  "calculate_rfm_scores_tables parse orders_df customers_df =
     (case convert_column parse ''order_date'' orders_df of
        Inl e \<Rightarrow> ((orders_df, customers_df), Some e)
      | Inr orders' \<Rightarrow> ((orders', customers_df), None))"

definition calculate_historical_clv_tables ::
  "(string \<Rightarrow> int option) \<Rightarrow> frame \<Rightarrow> frame \<Rightarrow> (frame \<times> frame) \<times> error option" where
  "calculate_historical_clv_tables parse orders_df customers_df =
     (case convert_column parse ''order_date'' orders_df of
        Inl e \<Rightarrow> ((orders_df, customers_df), Some e)
      | Inr orders' \<Rightarrow>
          (case convert_column parse ''signup_date'' customers_df of
             Inl e \<Rightarrow> ((orders', customers_df), Some e)
           | Inr customers' \<Rightarrow> ((orders', customers'), None)))"

definition calculate_predictive_clv_tables ::
  "CLVAnalyzer \<Rightarrow> (string \<Rightarrow> int option) \<Rightarrow> frame \<Rightarrow> frame \<times> error option" where
  "calculate_predictive_clv_tables self parse orders_df =
     (case clv_data self of
        None \<Rightarrow> (orders_df, Some ValueError)
      | Some df \<Rightarrow>
          (case convert_column parse ''order_date'' orders_df of
             Inl e \<Rightarrow> (orders_df, Some e)
           | Inr orders' \<Rightarrow> (orders', None)))"

definition create_signup_cohorts_tables ::
  "CohortAnalyzer \<Rightarrow> (string \<Rightarrow> int option) \<Rightarrow> frame \<Rightarrow> frame
     \<Rightarrow> (frame \<times> frame) \<times> error option" where
  "create_signup_cohorts_tables self parse customers_df orders_df =
     (case convert_column parse ''signup_date'' customers_df of
        Inl e \<Rightarrow> ((orders_df, customers_df), Some e)
      | Inr customers' \<Rightarrow>
          (case convert_column parse ''order_date'' orders_df of
             Inl e \<Rightarrow> ((orders_df, customers'), Some e)
           | Inr orders' \<Rightarrow>
               ((assign_period (period_freq (period_type self)) ''order_date'' ''order_period'' orders',
                 assign_period (period_freq (period_type self)) ''signup_date'' ''cohort_group'' customers'),
                None)))"

definition analyze_revenue_cohorts_tables ::
  "CohortAnalyzer \<Rightarrow> (string \<Rightarrow> int option) \<Rightarrow> frame \<Rightarrow> frame
     \<Rightarrow> (frame \<times> frame) \<times> error option" where
  "analyze_revenue_cohorts_tables self parse customers_df orders_df =
     (case convert_column parse ''signup_date'' customers_df of
        Inl e \<Rightarrow> ((orders_df, customers_df), Some e)
      | Inr customers' \<Rightarrow>
          (case convert_column parse ''order_date'' orders_df of
             Inl e \<Rightarrow> ((orders_df, customers'), Some e)
           | Inr orders' \<Rightarrow>
               (if period_type self = ''monthly''
                then ((assign_period ''M'' ''order_date'' ''order_period'' orders',
                       assign_period ''M'' ''signup_date'' ''cohort_group'' customers'), None)
                else ((orders', customers'), None))))"

section \<open>Statements to compare with\<close>

text \<open>
  The decision table as the specification words it, and the name it gives a cluster
  when the overall means are taken over all customers of the data set.
\<close>

definition spec_decision_table :: "bool \<Rightarrow> bool \<Rightarrow> bool \<Rightarrow> segment_name" where
  "spec_decision_table high_frequency high_monetary recent =
     (if high_frequency \<and> high_monetary then (if recent then VIP else Past_VIP)
      else if high_frequency then (if recent then Loyal else At_risk)
      else if high_monetary then (if recent then High_spend else Dormant_high_spend)
      else (if recent then New_general else Low_engagement))"

definition spec_behavioral_name :: "rfm_row list \<Rightarrow> profile \<Rightarrow> segment_name" where
  "spec_behavioral_name rfm p =
     spec_decision_table
       (frequency_mean p > average (map (\<lambda>r. of_int (frequency r)) rfm))
       (monetary_mean p > average (map monetary rfm))
       (recency_mean p < average (map (\<lambda>r. of_int (recency r)) rfm))"

text \<open>The columns of a table other than those named, in their order.\<close>

definition other_columns :: "string list \<Rightarrow> frame \<Rightarrow> frame" where
  "other_columns cs df = filter (\<lambda>(n, v). n \<notin> set cs) df"

text \<open>
  A table \<open>df'\<close> is \<open>df\<close> with the columns \<open>new\<close> assigned: it has the column names
  of \<open>df\<close>, followed by the new names \<open>df\<close> did not have, each assigned column holds
  the cells given, and every other column is as in \<open>df\<close>.
\<close>

definition columns_assigned :: "(string \<times> cell list) list \<Rightarrow> frame \<Rightarrow> frame \<Rightarrow> bool" where
  "columns_assigned new df df' =
     (map fst df' = map fst df @ filter (\<lambda>c. c \<notin> fst ` set df) (map fst new)
      \<and> list_all (\<lambda>(c, col). map_of df' c = Some col) new
      \<and> other_columns (map fst new) df' = other_columns (map fst new) df)"

text \<open>The datetime conversion of a column, when the table has it and it converts.\<close>

definition converted_column :: "(string \<Rightarrow> int option) \<Rightarrow> string \<Rightarrow> frame \<Rightarrow> cell list option" where
  "converted_column parse c df =
     (case map_of df c of
        None \<Rightarrow> None
      | Some col \<Rightarrow> (case to_datetime parse col of Inl e \<Rightarrow> None | Inr col' \<Rightarrow> Some col'))"

text \<open>
  \<open>df'\<close> is \<open>df\<close> with the column \<open>c\<close> replaced by its datetime conversion, or
  \<open>df\<close> itself when the conversion raises.
\<close>

definition dates_converted :: "(string \<Rightarrow> int option) \<Rightarrow> string \<Rightarrow> frame \<Rightarrow> frame \<Rightarrow> bool" where
  "dates_converted parse c df df' =
     (case converted_column parse c df of
        None \<Rightarrow> df' = df
      | Some col' \<Rightarrow> columns_assigned [(c, col')] df df')"

text \<open>
  \<open>df'\<close> is \<open>df\<close> with the column \<open>c\<close> replaced by its datetime conversion and the
  column \<open>c'\<close> set to the periods of the converted dates.
\<close>

definition periods_assigned ::
  "(string \<Rightarrow> int option) \<Rightarrow> string \<Rightarrow> string \<Rightarrow> string \<Rightarrow> frame \<Rightarrow> frame \<Rightarrow> bool" where
  "periods_assigned parse freq c c' df df' =
     (case converted_column parse c df of
        None \<Rightarrow> False
      | Some col' \<Rightarrow> columns_assigned [(c, col'), (c', map (period_cell freq) col')] df df')"

text \<open>
  The two tables after a cohort operation with frequency \<open>freq\<close>: nothing is changed
  when the conversion of the signup dates raises, only the signup dates are converted
  when that of the order dates raises, and else both date columns are converted and the
  columns \<open>cohort_group\<close> and \<open>order_period\<close> hold the periods of the converted dates.
\<close>

definition cohort_columns_assigned ::
  "(string \<Rightarrow> int option) \<Rightarrow> string \<Rightarrow> frame \<Rightarrow> frame \<Rightarrow> frame \<Rightarrow> frame \<Rightarrow> bool" where
  "cohort_columns_assigned parse freq customers_df orders_df customers' orders' =
     (if converted_column parse ''signup_date'' customers_df = None
      then customers' = customers_df \<and> orders' = orders_df
      else if converted_column parse ''order_date'' orders_df = None
      then dates_converted parse ''signup_date'' customers_df customers' \<and> orders' = orders_df
      else periods_assigned parse freq ''signup_date'' ''cohort_group'' customers_df customers'
           \<and> periods_assigned parse freq ''order_date'' ''order_period'' orders_df orders')"

definition is_datetime :: "cell \<Rightarrow> bool" where
  "is_datetime x = (case x of Datetime t \<Rightarrow> True | NaT \<Rightarrow> True | _ \<Rightarrow> False)"

definition dates_parsed :: "string \<Rightarrow> frame \<Rightarrow> bool" where
  "dates_parsed c df =
     (distinct (map fst df)
      \<and> (case map_of df c of None \<Rightarrow> True | Some col \<Rightarrow> list_all is_datetime col))"

section \<open>Example tables\<close>

text \<open>
  Five customers with one order each, 10 to 50 days before the reference date, and a
  sixth customer who never ordered.
\<close>

definition ex_order :: "nat \<Rightarrow> nat \<Rightarrow> int \<Rightarrow> rat \<Rightarrow> order" where
  "ex_order i c d a = \<lparr>order_id = i, order_customer_id = c, order_date = timedelta d, final_amount = a\<rparr>"

definition ex_orders :: "order list" where
  "ex_orders = [ex_order 1 1 90 10, ex_order 2 2 80 20, ex_order 3 3 70 30,
                ex_order 4 4 60 40, ex_order 5 5 50 50]"

definition ex_customers :: "customer list" where
  "ex_customers = map (\<lambda>c. \<lparr>customer_id = c, signup_date = 0\<rparr>) [1, 2, 3, 4, 5, 6]"

definition ex_rfm :: RFMAnalyzer where
  "ex_rfm = \<lparr>reference_date = timedelta 100, rfm_data = None, segments = None\<rparr>"

definition ex_clv :: CLVAnalyzer where
  "ex_clv = \<lparr>analysis_period = 12, clv_data = None\<rparr>"

definition ex_clv_historical :: CLVAnalyzer where
  "ex_clv_historical = fst (calculate_historical_clv ex_clv ex_orders ex_customers)"

definition ex_cohort :: CohortAnalyzer where
  "ex_cohort = \<lparr>period_type = ''monthly'', cohort_data = None, retention_table = None\<rparr>"

definition ex_orders_df :: frame where
  "ex_orders_df =
     [(''order_id'', [Number 1]), (''customer_id'', [Number 1]),
      (''order_date'', [Datetime (timedelta 14)]), (''final_amount'', [Number 100])]"

definition ex_customers_df :: frame where
  "ex_customers_df =
     [(''customer_id'', [Number 1, Number 2]),
      (''signup_date'', [Datetime (timedelta 9), Datetime (timedelta 10)])]"

text \<open>The same two tables with the dates as \<^verbatim>\<open>date\<close> objects.\<close>

definition ex_orders_raw :: frame where
  "ex_orders_raw =
     [(''order_id'', [Number 1]), (''customer_id'', [Number 1]),
      (''order_date'', [Date 14]), (''final_amount'', [Number 100])]"

definition ex_customers_raw :: frame where
  "ex_customers_raw =
     [(''customer_id'', [Number 1, Number 2]), (''signup_date'', [Date 9, Date 10])]"

definition ex_cohort_weekly :: CohortAnalyzer where
  "ex_cohort_weekly = \<lparr>period_type = ''weekly'', cohort_data = None, retention_table = None\<rparr>"

text \<open>The example orders with one more order, of a customer the customer table lacks.\<close>

definition ex_orders_unmatched :: "order list" where
  "ex_orders_unmatched = ex_orders @ [ex_order 6 7 50 60]"

definition ex_signups :: "customer list" where
  "ex_signups = [\<lparr>customer_id = 1, signup_date = timedelta 9\<rparr>,
                 \<lparr>customer_id = 2, signup_date = timedelta 10\<rparr>]"

definition ex_first_order :: "order list" where
  "ex_first_order = [ex_order 1 1 14 100]"

text \<open>
  Eleven customers in three clusters: nine with frequency 1, one with frequency 10 and
  one with frequency 3.
\<close>

definition ex_rfm_row :: "nat \<Rightarrow> int \<Rightarrow> rat \<Rightarrow> int \<Rightarrow> rfm_row" where
  "ex_rfm_row c f m r =
     \<lparr>customer_id = c, signup_date = 0, last_order_date = None, frequency = f,
      monetary = m, recency = r, R_score = 1, F_score = 1, M_score = 1,
      RFM_score = ''111'', RFM_avg_score = 1, segment = None\<rparr>"

definition ex_clustered :: "rfm_row list" where
  "ex_clustered =
     map (\<lambda>c. ex_rfm_row c 1 10 50) [1, 2, 3, 4, 5, 6, 7, 8, 9]
     @ [ex_rfm_row 10 10 100 5, ex_rfm_row 11 3 30 10]"

definition ex_cluster_labels :: "nat list" where
  "ex_cluster_labels = [0, 0, 0, 0, 0, 0, 0, 0, 0, 1, 2]"

text \<open>Their profile table: the means are whole numbers, which rounding leaves.\<close>

definition ex_profiles :: "profile list" where
  "ex_profiles =
     [\<lparr>segment_id = 0, frequency_mean = 1, frequency_count = 9, monetary_mean = 10,
       monetary_count = 9, recency_mean = 50, recency_count = 9\<rparr>,
      \<lparr>segment_id = 1, frequency_mean = 10, frequency_count = 1, monetary_mean = 100,
       monetary_count = 1, recency_mean = 5, recency_count = 1\<rparr>,
      \<lparr>segment_id = 2, frequency_mean = 3, frequency_count = 1, monetary_mean = 30,
       monetary_count = 1, recency_mean = 10, recency_count = 1\<rparr>]"

section \<open>Properties of the quantile scorer\<close>

subsection \<open>The ranks are a permutation of 1..n\<close>

lemma before_irrefl: "\<not> before a x x"
  by (simp add: before_def)

lemma before_trans: "before a x y \<Longrightarrow> before a y z \<Longrightarrow> before a x z"
  by (auto simp: before_def split: if_splits)

lemma before_cases: "before a x y \<or> x = y \<or> before a y x"
  by (auto simp: before_def)

lemma filter_disjoint_le:
  assumes "\<And>y. P y \<Longrightarrow> R y" "\<And>y. Q y \<Longrightarrow> R y" "\<And>y. \<not> (P y \<and> Q y)"
  shows "length (filter P xs) + length (filter Q xs) \<le> length (filter R xs)"
  using assms by (induction xs) auto

lemma equal_before_take:
  assumes "i < length xs"
  shows "length (filter (\<lambda>y. y = xs ! i) (take i xs)) < length (filter (\<lambda>y. y = xs ! i) xs)"
proof -
  define v where "v = xs ! i"
  have split: "take i xs @ v # drop (Suc i) xs = xs"
    using assms by (simp add: v_def id_take_nth_drop[symmetric])
  have "length (filter (\<lambda>y. y = v) (take i xs))
      < length (filter (\<lambda>y. y = v) (take i xs @ v # drop (Suc i) xs))"
    by simp
  then show ?thesis unfolding split unfolding v_def .
qed

lemma equal_take_mono:
  assumes "i < j" "j \<le> length xs"
  shows "length (filter (\<lambda>y. y = xs ! i) (take i xs)) < length (filter (\<lambda>y. y = xs ! i) (take j xs))"
proof -
  from assms have "i < length (take j xs)" by simp
  from equal_before_take[OF this] assms show ?thesis by (simp add: min_def)
qed

lemma rank_at_less_of_before:
  assumes "i < length xs" "before a (xs ! i) (xs ! j)"
  shows "rank_at a xs i < rank_at a xs j"
proof -
  have "length (filter (\<lambda>y. before a y (xs ! i)) xs) + length (filter (\<lambda>y. y = xs ! i) xs)
      \<le> length (filter (\<lambda>y. before a y (xs ! j)) xs)"
    using assms(2) by (intro filter_disjoint_le) (auto intro: before_trans simp: before_irrefl)
  with equal_before_take[OF assms(1)] show ?thesis by (simp add: rank_at_def)
qed

lemma rank_at_less_of_equal:
  assumes "i < j" "j < length xs" "xs ! i = xs ! j"
  shows "rank_at a xs i < rank_at a xs j"
  using equal_take_mono[of i j xs] assms by (simp add: rank_at_def)

lemma rank_at_inj:
  assumes "i < length xs" "j < length xs" "rank_at a xs i = rank_at a xs j"
  shows "i = j"
proof (rule ccontr)
  assume ne: "i \<noteq> j"
  consider "before a (xs ! i) (xs ! j)" | "before a (xs ! j) (xs ! i)" | "xs ! i = xs ! j"
    using before_cases by blast
  then show False
  proof cases
    case 1
    from rank_at_less_of_before[OF assms(1) 1] assms(3) show False by simp
  next
    case 2
    from rank_at_less_of_before[OF assms(2) 2] assms(3) show False by simp
  next
    case 3
    show False
    proof (cases "i < j")
      case True
      from rank_at_less_of_equal[OF True assms(2) 3, where a = a] assms(3) show False by simp
    next
      case False
      with ne have "j < i" by simp
      from rank_at_less_of_equal[OF this assms(1) 3[symmetric], where a = a] assms(3)
      show False by simp
    qed
  qed
qed

lemma rank_at_bounds:
  assumes "i < length xs"
  shows "1 \<le> rank_at a xs i \<and> rank_at a xs i \<le> length xs"
proof -
  have "length (filter (\<lambda>y. before a y (xs ! i)) xs) + length (filter (\<lambda>y. y = xs ! i) xs)
      \<le> length (filter (\<lambda>y. True) xs)"
    by (intro filter_disjoint_le) (auto simp: before_irrefl)
  with equal_before_take[OF assms] show ?thesis by (simp add: rank_at_def)
qed

lemma rank_first_nth: "rank_first a xs = map (rank_at a xs) [0..<length xs]"
  by (simp add: rank_first_def)

lemma rank_first_length: "length (rank_first a xs) = length xs"
  by (simp add: rank_first_def)

lemma rank_first_distinct: "distinct (rank_first a xs)"
  unfolding rank_first_nth distinct_map
  by (auto intro!: inj_onI dest: rank_at_inj)

lemma rank_first_set: "set (rank_first a xs) = {1..length xs}"
proof -
  have "rank_at a xs i \<in> {1..length xs}" if "i < length xs" for i
    using rank_at_bounds[OF that, of a] by simp
  then have sub: "set (rank_first a xs) \<subseteq> {1..length xs}"
    by (auto simp: rank_first_nth)
  have "card (set (rank_first a xs)) = length xs"
    using rank_first_distinct[of a xs] by (simp add: distinct_card rank_first_length)
  then have "card (set (rank_first a xs)) = card {1..length xs}" by simp
  with sub show ?thesis by (simp add: card_subset_eq)
qed

subsection \<open>The bin edges of the ranks\<close>

lemma sort_ranks:
  "sort (map rat_of_nat (rank_first a xs)) = map rat_of_nat [1..<Suc (length xs)]"
proof (rule sorted_distinct_set_unique)
  show "sorted (sort (map rat_of_nat (rank_first a xs)))" by simp
  show "distinct (sort (map rat_of_nat (rank_first a xs)))"
    by (simp add: distinct_map rank_first_distinct inj_on_def)
  show "sorted (map rat_of_nat [1..<Suc (length xs)])"
    by (simp add: sorted_wrt_map del: upt_Suc)
  show "distinct (map rat_of_nat [1..<Suc (length xs)])"
    by (simp add: distinct_map inj_on_def del: upt_Suc)
  show "set (sort (map rat_of_nat (rank_first a xs))) = set (map rat_of_nat [1..<Suc (length xs)])"
    by (simp add: rank_first_set atLeastLessThanSuc_atLeastAtMost del: upt_Suc)
qed

lemma nth_ranks: "i < n \<Longrightarrow> map rat_of_nat [1..<Suc n] ! i = of_nat (Suc i)"
  by (simp del: upt_Suc)

lemma quantile_ranks:
  assumes "xs \<noteq> []" "0 \<le> p" "p \<le> 1"
  shows "quantile (map rat_of_nat (rank_first a xs)) p = 1 + of_nat (length xs - 1) * p"
proof -
  define n where "n = length xs"
  define h where "h = rat_of_nat (n - 1) * p"
  define lo where "lo = nat \<lfloor>h\<rfloor>"
  from assms(1) have n: "0 < n" by (simp add: n_def)
  have h0: "0 \<le> h" using assms(2) by (simp add: h_def)
  have h1: "h \<le> of_nat (n - 1)"
    using assms(3) by (simp add: h_def mult_left_le)
  have lo_h: "rat_of_nat lo = of_int \<lfloor>h\<rfloor>" using h0 by (simp add: lo_def)
  have lo_le: "lo \<le> n - 1"
  proof -
    have "\<lfloor>h\<rfloor> \<le> int (n - 1)" using h1 by (simp add: floor_le_iff)
    then show ?thesis by (simp add: lo_def)
  qed
  have q: "quantile (map rat_of_nat (rank_first a xs)) p
      = map rat_of_nat [1..<Suc n] ! lo
        + (h - of_int \<lfloor>h\<rfloor>)
          * (map rat_of_nat [1..<Suc n] ! min (Suc lo) (n - 1) - map rat_of_nat [1..<Suc n] ! lo)"
    by (simp add: quantile_def Let_def sort_ranks rank_first_length n_def h_def lo_def
          del: upt_Suc)
  have lo_n: "lo < n" using lo_le n by simp
  show ?thesis
  proof (cases "lo < n - 1")
    case True
    then have "min (Suc lo) (n - 1) = Suc lo" "Suc lo < n" by simp_all
    with q lo_n have "quantile (map rat_of_nat (rank_first a xs)) p
        = of_nat (Suc lo) + (h - of_int \<lfloor>h\<rfloor>) * (of_nat (Suc (Suc lo)) - of_nat (Suc lo))"
      by (simp only: nth_ranks)
    also have "\<dots> = 1 + h" using lo_h by simp
    finally show ?thesis by (simp add: h_def n_def)
  next
    case False
    with lo_le have eq: "lo = n - 1" by simp
    then have "min (Suc lo) (n - 1) = lo" by simp
    with q lo_n have "quantile (map rat_of_nat (rank_first a xs)) p = of_nat (Suc lo)"
      by (simp only: nth_ranks) simp
    moreover have "h = of_nat lo"
    proof -
      have "of_int \<lfloor>h\<rfloor> \<le> h" by simp
      with lo_h have "of_nat lo \<le> h" by simp
      with h1 eq show ?thesis by simp
    qed
    ultimately show ?thesis by (simp add: h_def n_def)
  qed
qed

lemma bin_edges_ranks:
  assumes "xs \<noteq> []"
  shows "bin_edges (map rat_of_nat (rank_first a xs)) 5
     = map (\<lambda>k. 1 + of_nat (length xs - 1) * (of_nat k / 5)) [0..<6]"
proof -
  have "quantile (map rat_of_nat (rank_first a xs)) (of_nat k / 5)
      = 1 + of_nat (length xs - 1) * (of_nat k / 5)" if "k \<in> set [0..<6]" for k
    using that by (intro quantile_ranks[OF assms]) auto
  then show ?thesis
    unfolding bin_edges_def by (intro map_cong) (simp_all del: upt_Suc)
qed

lemma bin_edges_ranks_distinct:
  assumes "2 \<le> length xs"
  shows "distinct (bin_edges (map rat_of_nat (rank_first a xs)) 5)"
proof -
  from assms have ne: "xs \<noteq> []" by auto
  from assms have pos: "0 < rat_of_nat (length xs - 1)" by simp
  have "inj_on (\<lambda>k. 1 + rat_of_nat (length xs - 1) * (of_nat k / 5)) (set [0..<6])"
    using pos by (intro inj_onI) simp
  then show ?thesis
    unfolding bin_edges_ranks[OF ne] by (simp add: distinct_map del: upt_Suc)
qed

lemma bin_id_ranks:
  assumes "2 \<le> length xs" "v \<in> set (map rat_of_nat (rank_first a xs))"
  shows "0 < bin_id (bin_edges (map rat_of_nat (rank_first a xs)) 5) v
       \<and> bin_id (bin_edges (map rat_of_nat (rank_first a xs)) 5) v \<le> 5"
proof -
  let ?bins = "bin_edges (map rat_of_nat (rank_first a xs)) 5"
  from assms(1) have ne: "xs \<noteq> []" by auto
  have len: "length ?bins = 6" by (simp add: bin_edges_def)
  have first: "?bins ! 0 = 1"
    unfolding bin_edges_ranks[OF ne] by (simp add: upt_rec)
  have last: "?bins ! 5 = of_nat (length xs)"
  proof -
    have "?bins ! 5 = 1 + rat_of_nat (length xs - 1) * (of_nat 5 / 5)"
      unfolding bin_edges_ranks[OF ne] by (subst nth_map) simp_all
    also have "\<dots> = of_nat (length xs)" using ne
      by (cases xs) simp_all
    finally show ?thesis .
  qed
  from assms(2) obtain r where r: "v = of_nat r" "1 \<le> r" "r \<le> length xs"
    using rank_first_set[of a xs] by auto
  show ?thesis
  proof (cases "v = ?bins ! 0")
    case True
    then show ?thesis by (simp add: bin_id_def)
  next
    case False
    have mem0: "?bins ! 0 \<in> set ?bins" and mem5: "?bins ! 5 \<in> set ?bins"
      using len by simp_all
    have "?bins ! 0 < v" using False first r by simp
    with mem0 have "filter (\<lambda>b. b < v) ?bins \<noteq> []"
      by (auto simp: filter_empty_conv)
    then have lo: "0 < length (filter (\<lambda>b. b < v) ?bins)" by simp
    have "\<not> ?bins ! 5 < v" using last r by simp
    with mem5 have "length (filter (\<lambda>b. b < v) ?bins) < length ?bins"
      by (rule length_filter_less)
    with len lo False show ?thesis by (simp add: bin_id_def)
  qed
qed

lemma qcut_ranks_returns:
  assumes "2 \<le> length xs" "length labels = 5"
  shows "\<exists>ys. qcut (map rat_of_nat (rank_first a xs)) 5 labels = Inr ys"
proof -
  from assms(1) have "map rat_of_nat (rank_first a xs) \<noteq> []"
    by (auto simp: rank_first_def)
  moreover note bin_edges_ranks_distinct[OF assms(1), of a]
  moreover have "\<not> (\<exists>i \<in> set (map (bin_id (bin_edges (map rat_of_nat (rank_first a xs)) 5))
                       (map rat_of_nat (rank_first a xs))). i = 0 \<or> 5 < i)"
    using bin_id_ranks[OF assms(1), of _ a] by fastforce
  ultimately show ?thesis using assms(2) by (simp add: qcut_def Let_def)
qed

lemma qcut_single_raises:
  assumes "length x = 1"
  shows "qcut x 5 labels = Inl ValueError"
proof -
  have "quantile x p = quantile x 0" for p
    using assms by (simp add: quantile_def Let_def)
  then have "bin_edges x 5 = map (\<lambda>k. quantile x 0) [0..<6]"
    by (simp add: bin_edges_def del: upt_Suc)
  then have "\<not> distinct (bin_edges x 5)" by (simp add: upt_rec)
  then show ?thesis by (simp add: qcut_def Let_def)
qed

section \<open>Properties of the RFM engine\<close>

lemma segment_loop_find:
  assumes "\<forall>s \<in> set ss. rules s \<noteq> None"
  shows "segment_loop rules ss r f m =
     Inr (case find (\<lambda>s. in_box (the (rules s)) r f m) ss of Some s \<Rightarrow> s | None \<Rightarrow> ''Others'')"
  using assms by (induction ss) auto

lemma segment_rules_total: "\<forall>s \<in> set segment_priority. segment_rules s \<noteq> None"
  by (simp add: segment_priority_def segment_rules_def)

lemma assign_segment_find:
  "assign_segment r f m =
     Inr (case find (\<lambda>s. in_box (the (segment_rules s)) r f m) segment_priority of
            Some s \<Rightarrow> s | None \<Rightarrow> ''Others'')"
  unfolding assign_segment_def by (rule segment_loop_find[OF segment_rules_total])

lemma others_not_in_priority: "''Others'' \<notin> set segment_priority"
  by (simp add: segment_priority_def)

text \<open>
  C5: segment assignment is first-match-wins over the priority list. The call never
  fails; it returns a segment \<open>s\<close> exactly when \<open>s\<close> is the entry of the priority list at
  the least index whose inclusive box holds the triple, or \<open>s\<close> is \<open>Others\<close> and no box
  holds it. This holds for every integer triple, so for those of \<open>[1,5]^3\<close>.
\<close>

theorem assign_segment_first_match:
  "(\<exists>t. assign_segment r f m = Inr t) \<and>
   (assign_segment r f m = Inr s \<longleftrightarrow>
     (\<exists>i<length segment_priority. s = segment_priority ! i
         \<and> in_box (the (segment_rules s)) r f m
         \<and> (\<forall>j<i. \<not> in_box (the (segment_rules (segment_priority ! j))) r f m))
     \<or> (s = ''Others''
         \<and> (\<forall>j<length segment_priority.
               \<not> in_box (the (segment_rules (segment_priority ! j))) r f m)))"
proof (cases "find (\<lambda>s. in_box (the (segment_rules s)) r f m) segment_priority")
  case None
  then have none: "\<forall>j<length segment_priority.
      \<not> in_box (the (segment_rules (segment_priority ! j))) r f m"
    by (auto simp: find_None_iff)
  from None have res: "assign_segment r f m = Inr ''Others''"
    by (simp add: assign_segment_find)
  from none have "\<not> (\<exists>i<length segment_priority. s = segment_priority ! i
         \<and> in_box (the (segment_rules s)) r f m
         \<and> (\<forall>j<i. \<not> in_box (the (segment_rules (segment_priority ! j))) r f m))"
    by blast
  with res none show ?thesis by auto
next
  case (Some t)
  then have res: "assign_segment r f m = Inr t"
    by (simp add: assign_segment_find)
  from Some obtain i where i: "i < length segment_priority" "segment_priority ! i = t"
      "in_box (the (segment_rules t)) r f m"
      "\<forall>j<i. \<not> in_box (the (segment_rules (segment_priority ! j))) r f m"
    by (auto simp: find_Some_iff)
  have uniq: "s = t" if "k < length segment_priority" "s = segment_priority ! k"
      "in_box (the (segment_rules s)) r f m"
      "\<forall>j<k. \<not> in_box (the (segment_rules (segment_priority ! j))) r f m" for k
  proof -
    have "\<not> k < i" using i(4) that(2,3) by blast
    moreover have "\<not> i < k" using that(4) i(2,3) by blast
    ultimately have "k = i" by simp
    with that(2) i(2) show ?thesis by simp
  qed
  have notall: "\<not> (\<forall>j<length segment_priority.
               \<not> in_box (the (segment_rules (segment_priority ! j))) r f m)"
    using i(1,2,3) by blast
  show ?thesis
  proof (intro conjI iffI)
    show "\<exists>t. assign_segment r f m = Inr t" using res by blast
  next
    assume "assign_segment r f m = Inr s"
    with res have "s = t" by simp
    with i show "(\<exists>i<length segment_priority. s = segment_priority ! i
         \<and> in_box (the (segment_rules s)) r f m
         \<and> (\<forall>j<i. \<not> in_box (the (segment_rules (segment_priority ! j))) r f m))
     \<or> (s = ''Others''
         \<and> (\<forall>j<length segment_priority.
               \<not> in_box (the (segment_rules (segment_priority ! j))) r f m))"
      by blast
  next
    assume "(\<exists>i<length segment_priority. s = segment_priority ! i
         \<and> in_box (the (segment_rules s)) r f m
         \<and> (\<forall>j<i. \<not> in_box (the (segment_rules (segment_priority ! j))) r f m))
     \<or> (s = ''Others''
         \<and> (\<forall>j<length segment_priority.
               \<not> in_box (the (segment_rules (segment_priority ! j))) r f m))"
    with notall uniq have "s = t" by blast
    with res show "assign_segment r f m = Inr s" by simp
  qed
qed

text \<open>
  At \<open>(5,5,5)\<close> the boxes of Champions and of Loyal Customers both hold the triple, and
  Champions, the earlier entry, is returned.
\<close>

theorem assign_segment_first_match_witness:
  "assign_segment 5 5 5 = Inr ''Champions''
   \<and> in_box (the (segment_rules ''Champions'')) 5 5 5
   \<and> in_box (the (segment_rules ''Loyal Customers'')) 5 5 5
   \<and> segment_priority ! 0 = ''Champions'' \<and> segment_priority ! 1 = ''Loyal Customers''"
proof -
  have box: "in_box (the (segment_rules ''Champions'')) 5 5 5"
    by (simp add: segment_rules_def in_box_def)
  have "\<exists>i<length segment_priority. ''Champions'' = segment_priority ! i
         \<and> in_box (the (segment_rules ''Champions'')) 5 5 5
         \<and> (\<forall>j<i. \<not> in_box (the (segment_rules (segment_priority ! j))) 5 5 5)"
    using box by (intro exI[of _ 0]) (simp add: segment_priority_def)
  then have "assign_segment 5 5 5 = Inr ''Champions''"
    using assign_segment_first_match[of 5 5 5 "''Champions''"] by blast
  moreover have "in_box (the (segment_rules ''Loyal Customers'')) 5 5 5"
    by (simp add: segment_rules_def in_box_def)
  moreover have "segment_priority ! 0 = ''Champions'' \<and> segment_priority ! 1 = ''Loyal Customers''"
    by (simp add: segment_priority_def)
  ultimately show ?thesis using box by blast
qed

lemma assign_segment_111: "assign_segment 1 1 1 = Inr ''Hibernating''"
  by (simp add: assign_segment_def segment_priority_def segment_rules_def in_box_def)

lemma lost_inside_hibernating:
  "in_box (the (segment_rules ''Lost'')) r f m \<Longrightarrow> in_box (the (segment_rules ''Hibernating'')) r f m"
  by (simp add: segment_rules_def in_box_def)

lemma assign_segment_never_lost: "assign_segment r f m \<noteq> Inr ''Lost''"
proof
  assume a: "assign_segment r f m = Inr ''Lost''"
  then have "find (\<lambda>s. in_box (the (segment_rules s)) r f m) segment_priority = Some ''Lost''"
    by (auto simp: assign_segment_find split: option.splits)
  then obtain i where i: "i < length segment_priority" "segment_priority ! i = ''Lost''"
      "in_box (the (segment_rules ''Lost'')) r f m"
      "\<forall>j<i. \<not> in_box (the (segment_rules (segment_priority ! j))) r f m"
    by (auto simp: find_Some_iff)
  have "i = 10" using i(1,2) 
    by (auto simp: segment_priority_def nth_Cons' less_Suc_eq numeral_2_eq_2 numeral_3_eq_3 split: if_splits)
  with i(4) have "\<not> in_box (the (segment_rules (segment_priority ! 9))) r f m" by simp
  moreover have "segment_priority ! 9 = ''Hibernating''" by (simp add: segment_priority_def)
  ultimately show False using lost_inside_hibernating[OF i(3)] by simp
qed

lemma qcut_labels:
  assumes "qcut x q labels = Inr ys"
  shows "length ys = length x \<and> set ys \<subseteq> set labels"
proof -
  from assms have q: "length labels = q" and
    ids: "\<forall>i \<in> set (map (bin_id (bin_edges x q)) x). 0 < i \<and> i \<le> q" and
    ys: "ys = map (\<lambda>i. labels ! (i - 1)) (map (bin_id (bin_edges x q)) x)"
    by (auto simp: qcut_def Let_def split: if_splits)
  have "labels ! (i - 1) \<in> set labels" if "0 < i" "i \<le> q" for i
    using that q by (intro nth_mem) simp
  with ids ys show ?thesis by auto
qed

lemma customer_rfm_ids:
  assumes "customer_rfm ref orders = Inr agg"
  shows "map crfm_customer_id agg = group_keys orders"
  using assms
  by (auto simp: customer_rfm_def Let_def map_nth split: sum.splits
           intro!: nth_equalityI)

lemma customer_rfm_scores:
  assumes "customer_rfm ref orders = Inr agg" "a \<in> set agg"
  shows "crfm_R_score a \<in> {1..5} \<and> crfm_F_score a \<in> {1..5} \<and> crfm_M_score a \<in> {1..5}"
proof -
  let ?keys = "group_keys orders"
  from assms(1) obtain rs fs ms where
    rs: "qcut (map of_nat (rank_first False (map (\<lambda>d. days (ref - d))
          (map (\<lambda>c. Max (set (map order_date (orders_of orders c)))) ?keys)))) 5 [5, 4, 3, 2, 1] = Inr rs"
    and fs: "qcut (map of_nat (rank_first True (map (\<lambda>c. int (length (orders_of orders c))) ?keys))) 5 [1, 2, 3, 4, 5] = Inr fs"
    and ms: "qcut (map of_nat (rank_first True (map (\<lambda>c. sum_list (map final_amount (orders_of orders c))) ?keys))) 5 [1, 2, 3, 4, 5] = Inr ms"
    and agg: "agg = map (\<lambda>i. \<lparr>crfm_customer_id = ?keys ! i,
                            crfm_last_order_date = (map (\<lambda>c. Max (set (map order_date (orders_of orders c)))) ?keys) ! i,
                            crfm_frequency = (map (\<lambda>c. int (length (orders_of orders c))) ?keys) ! i,
                            crfm_monetary = (map (\<lambda>c. sum_list (map final_amount (orders_of orders c))) ?keys) ! i,
                            crfm_recency = (map (\<lambda>d. days (ref - d))
          (map (\<lambda>c. Max (set (map order_date (orders_of orders c)))) ?keys)) ! i,
                            crfm_R_score = rs ! i,
                            crfm_F_score = fs ! i,
                            crfm_M_score = ms ! i\<rparr>) [0..<length ?keys]"
    by (auto simp: customer_rfm_def Let_def split: sum.splits)
  from qcut_labels[OF rs] have lr: "length rs = length ?keys" "set rs \<subseteq> {1..5}"
    by (auto simp: rank_first_def)
  from qcut_labels[OF fs] have lf: "length fs = length ?keys" "set fs \<subseteq> {1..5}"
    by (auto simp: rank_first_def)
  from qcut_labels[OF ms] have lm: "length ms = length ?keys" "set ms \<subseteq> {1..5}"
    by (auto simp: rank_first_def)
  from assms(2) agg obtain i where i: "i < length ?keys" "crfm_R_score a = rs ! i"
     "crfm_F_score a = fs ! i" "crfm_M_score a = ms ! i"
    by auto
  have "rs ! i \<in> set rs" "fs ! i \<in> set fs" "ms ! i \<in> set ms"
    using i(1) lr(1) lf(1) lm(1) by simp_all
  with lr(2) lf(2) lm(2) i show ?thesis by auto
qed

lemma merge_rfm_scores:
  assumes "\<forall>a \<in> set agg. crfm_R_score a \<in> {1..5} \<and> crfm_F_score a \<in> {1..5} \<and> crfm_M_score a \<in> {1..5}"
  shows "R_score (merge_rfm agg c) \<in> {1..5} \<and> F_score (merge_rfm agg c) \<in> {1..5}
     \<and> M_score (merge_rfm agg c) \<in> {1..5}"
proof (cases "find (\<lambda>a. crfm_customer_id a = customer_id c) agg")
  case None
  then show ?thesis by (simp add: merge_rfm_def customer.defs)
next
  case (Some a)
  then have "a \<in> set agg" by (auto simp: find_Some_iff)
  with assms Some show ?thesis by (simp add: merge_rfm_def customer.defs)
qed

lemma merge_rfm_no_orders:
  assumes "customer_id c \<notin> crfm_customer_id ` set agg"
  shows "merge_rfm agg c = customer.extend c
            \<lparr>last_order_date = None, frequency = 0, monetary = 0, recency = 999,
             R_score = 1, F_score = 1, M_score = 1,
             RFM_score = ''111'', RFM_avg_score = 1, segment = None\<rparr>"
proof -
  have "crfm_customer_id a \<noteq> customer_id c" if "a \<in> set agg" for a
    using assms that by (metis imageI)
  then have "find (\<lambda>a. crfm_customer_id a = customer_id c) agg = None"
    by (simp add: find_None_iff)
  then show ?thesis by (simp add: merge_rfm_def)
qed

text \<open>
  C7: in every table that \<^verbatim>\<open>calculate_rfm_scores\<close> returns, each row, of a customer
  with orders or without, has its three scores among the integers 1 to 5.
\<close>

theorem rfm_scores_in_range:
  assumes "snd (calculate_rfm_scores self orders_df customers_df) = Inr tbl" "row \<in> set tbl"
  shows "1 \<le> R_score row \<and> R_score row \<le> 5 \<and> 1 \<le> F_score row \<and> F_score row \<le> 5
     \<and> 1 \<le> M_score row \<and> M_score row \<le> 5"
proof -
  from assms(1) obtain agg where agg: "customer_rfm (reference_date self) orders_df = Inr agg"
    and tbl: "tbl = map (merge_rfm agg) customers_df"
    by (auto simp: calculate_rfm_scores_def Let_def split: sum.splits)
  from assms(2) tbl obtain c where "row = merge_rfm agg c" by auto
  with merge_rfm_scores[of agg c] customer_rfm_scores[OF agg] show ?thesis by auto
qed

lemma ex_rfm_returns:
  "(case snd (calculate_rfm_scores ex_rfm ex_orders ex_customers) of
      Inl e \<Rightarrow> False
    | Inr tbl \<Rightarrow> map (\<lambda>r. (customer_id r, recency r, R_score r, F_score r, M_score r)) tbl
         = [(1, 10, 1, 1, 1), (2, 20, 2, 2, 2), (3, 30, 3, 3, 3), (4, 40, 4, 4, 4),
            (5, 50, 5, 5, 5), (6, 999, 1, 1, 1)])"
  by code_simp

text \<open>On the example tables the call returns six rows, all within the range.\<close>

theorem rfm_scores_in_range_witness:
  "\<exists>tbl. snd (calculate_rfm_scores ex_rfm ex_orders ex_customers) = Inr tbl \<and> length tbl = 6
     \<and> list_all (\<lambda>row. 1 \<le> R_score row \<and> R_score row \<le> 5 \<and> 1 \<le> F_score row \<and> F_score row \<le> 5
     \<and> 1 \<le> M_score row \<and> M_score row \<le> 5) tbl"
proof -
  from ex_rfm_returns obtain tbl where
    t: "snd (calculate_rfm_scores ex_rfm ex_orders ex_customers) = Inr tbl"
    and m: "map (\<lambda>r. (customer_id r, recency r, R_score r, F_score r, M_score r)) tbl
         = [(1, 10, 1, 1, 1), (2, 20, 2, 2, 2), (3, 30, 3, 3, 3), (4, 40, 4, 4, 4),
            (5, 50, 5, 5, 5), (6, 999, 1, 1, 1)]"
    by (auto split: sum.splits)
  from m have "length (map (\<lambda>r. (customer_id r, recency r, R_score r, F_score r, M_score r)) tbl) = 6"
    by simp
  then have len: "length tbl = 6" by simp
  have "list_all (\<lambda>row. 1 \<le> R_score row \<and> R_score row \<le> 5 \<and> 1 \<le> F_score row \<and> F_score row \<le> 5
     \<and> 1 \<le> M_score row \<and> M_score row \<le> 5) tbl"
    unfolding list_all_iff using rfm_scores_in_range[OF t] by blast
  with t len show ?thesis by blast
qed

text \<open>
  The scorer returns exactly when at least two customers have orders: with one or none
  the bin edges of \<^verbatim>\<open>qcut\<close> repeat and it raises ValueError. A customer without
  orders always gets the defaults and, from \<^verbatim>\<open>assign_segments\<close>, the segment
  Hibernating.
\<close>

lemma length_group_keys: "length (group_keys orders) = card (order_customer_id ` set orders)"
  by (simp add: group_keys_def length_remdups_card_conv)

lemma customer_rfm_returns:
  assumes "2 \<le> card (order_customer_id ` set orders)"
  shows "\<exists>agg. customer_rfm ref orders = Inr agg"
proof -
  let ?keys = "group_keys orders"
  let ?recs = "map (\<lambda>d. days (ref - d))
          (map (\<lambda>c. Max (set (map order_date (orders_of orders c)))) ?keys)"
  let ?freqs = "map (\<lambda>c. int (length (orders_of orders c))) ?keys"
  let ?mons = "map (\<lambda>c. sum_list (map final_amount (orders_of orders c))) ?keys"
  from assms have n: "2 \<le> length ?recs" "2 \<le> length ?freqs" "2 \<le> length ?mons"
    by (simp_all add: length_group_keys)
  obtain rs where rs: "qcut (map of_nat (rank_first False ?recs)) 5 [5, 4, 3, 2, 1] = Inr rs"
    using qcut_ranks_returns[OF n(1), of "[5, 4, 3, 2, 1]" False] by auto
  obtain fs where fs: "qcut (map of_nat (rank_first True ?freqs)) 5 [1, 2, 3, 4, 5] = Inr fs"
    using qcut_ranks_returns[OF n(2), of "[1, 2, 3, 4, 5]" True] by auto
  obtain ms where ms: "qcut (map of_nat (rank_first True ?mons)) 5 [1, 2, 3, 4, 5] = Inr ms"
    using qcut_ranks_returns[OF n(3), of "[1, 2, 3, 4, 5]" True] by auto
  show ?thesis
    unfolding customer_rfm_def Let_def rs fs ms by simp
qed

lemma customer_rfm_raises:
  assumes "card (order_customer_id ` set orders) < 2"
  shows "customer_rfm ref orders = Inl ValueError"
proof -
  let ?keys = "group_keys orders"
  let ?recs = "map (\<lambda>d. days (ref - d))
          (map (\<lambda>c. Max (set (map order_date (orders_of orders c)))) ?keys)"
  have l: "length ?recs = card (order_customer_id ` set orders)"
    by (simp add: length_group_keys)
  have "length ?recs = 0 \<or> length ?recs = 1"
    unfolding l using assms by arith
  then have "qcut (map of_nat (rank_first False ?recs)) 5 [5, 4, 3, 2, 1] = Inl ValueError"
  proof
    assume "length ?recs = 0"
    then have "map rat_of_nat (rank_first False ?recs) = []"
      by (simp add: rank_first_def)
    then show ?thesis by (simp add: qcut_def)
  next
    assume "length ?recs = 1"
    then have "length (map rat_of_nat (rank_first False ?recs)) = 1"
      by (simp add: rank_first_length)
    then show ?thesis by (rule qcut_single_raises)
  qed
  then show ?thesis unfolding customer_rfm_def Let_def by simp
qed

lemma calculate_rfm_scores_returns:
  assumes "2 \<le> card (order_customer_id ` set orders_df)"
  shows "\<exists>tbl. calculate_rfm_scores self orders_df customers_df = (self\<lparr>rfm_data := Some tbl\<rparr>, Inr tbl)
           \<and> length tbl = length customers_df"
proof -
  from customer_rfm_returns[OF assms] obtain agg
    where "customer_rfm (reference_date self) orders_df = Inr agg" by blast
  then show ?thesis by (simp add: calculate_rfm_scores_def Let_def)
qed

lemma calculate_rfm_scores_raises:
  assumes "card (order_customer_id ` set orders_df) < 2"
  shows "calculate_rfm_scores self orders_df customers_df = (self, Inl ValueError)"
  using customer_rfm_raises[OF assms] by (simp add: calculate_rfm_scores_def)

lemma apply_segment_map:
  "apply_segment rows =
     Inr (map (\<lambda>row. row\<lparr>segment := Some
            (case find (\<lambda>s. in_box (the (segment_rules s)) (R_score row) (F_score row) (M_score row))
                    segment_priority of
               Some s \<Rightarrow> s | None \<Rightarrow> ''Others'')\<rparr>) rows)"
  by (induction rows) (simp_all add: assign_segment_find)

lemma find_111:
  "find (\<lambda>s. in_box (the (segment_rules s)) 1 1 1) segment_priority = Some ''Hibernating''"
  by (simp add: segment_priority_def segment_rules_def in_box_def)

lemma zero_order_customers_hibernating:
  assumes "snd (calculate_rfm_scores self orders_df customers_df) = Inr tbl"
    and "i < length customers_df"
    and "customer_id (customers_df ! i) \<notin> order_customer_id ` set orders_df"
  shows "\<exists>tbl'. snd (assign_segments (fst (calculate_rfm_scores self orders_df customers_df)))
            = Inr tbl'
     \<and> tbl' ! i = customer.extend (customers_df ! i)
            \<lparr>last_order_date = None, frequency = 0, monetary = 0, recency = 999,
             R_score = 1, F_score = 1, M_score = 1,
             RFM_score = ''111'', RFM_avg_score = 1, segment = Some ''Hibernating''\<rparr>"
proof -
  from assms(1) obtain agg where agg: "customer_rfm (reference_date self) orders_df = Inr agg"
    and tbl: "tbl = map (merge_rfm agg) customers_df"
    by (auto simp: calculate_rfm_scores_def Let_def split: sum.splits)
  have "crfm_customer_id ` set agg = set (map crfm_customer_id agg)" by simp
  also have "\<dots> = order_customer_id ` set orders_df"
    unfolding customer_rfm_ids[OF agg] by (simp add: group_keys_def)
  finally have "customer_id (customers_df ! i) \<notin> crfm_customer_id ` set agg"
    using assms(3) by simp
  from merge_rfm_no_orders[OF this] assms(2) tbl
  have row: "tbl ! i = customer.extend (customers_df ! i)
            \<lparr>last_order_date = None, frequency = 0, monetary = 0, recency = 999,
             R_score = 1, F_score = 1, M_score = 1,
             RFM_score = ''111'', RFM_avg_score = 1, segment = None\<rparr>"
    by simp
  have st: "rfm_data (fst (calculate_rfm_scores self orders_df customers_df)) = Some tbl"
    using agg tbl by (simp add: calculate_rfm_scores_def Let_def)
  let ?tbl' = "map (\<lambda>row. row\<lparr>segment := Some
            (case find (\<lambda>s. in_box (the (segment_rules s)) (R_score row) (F_score row) (M_score row))
                    segment_priority of
               Some s \<Rightarrow> s | None \<Rightarrow> ''Others'')\<rparr>) tbl"
  have res: "snd (assign_segments (fst (calculate_rfm_scores self orders_df customers_df)))
      = Inr ?tbl'"
    by (simp add: assign_segments_def st apply_segment_map)
  have len: "i < length tbl" using assms(2) tbl by simp
  have "?tbl' ! i = customer.extend (customers_df ! i)
            \<lparr>last_order_date = None, frequency = 0, monetary = 0, recency = 999,
             R_score = 1, F_score = 1, M_score = 1,
             RFM_score = ''111'', RFM_avg_score = 1, segment = Some ''Hibernating''\<rparr>"
    using len by (simp add: row find_111 customer.defs)
  with res show ?thesis by blast
qed

text \<open>
  In the aggregated table every score follows its ranks: a larger frequency or monetary
  value never scores lower, and a larger recency never scores lower either, since the
  descending ranks meet the descending labels.
\<close>

subsection \<open>The scores follow the ranks\<close>

lemma length_filter_mono:
  assumes "\<And>x. P x \<Longrightarrow> Q x"
  shows "length (filter P xs) \<le> length (filter Q xs)"
  using assms by (induction xs) auto

lemma qcut_ranks_length:
  assumes "qcut (map rat_of_nat (rank_first a xs)) 5 labels = Inr ys"
  shows "2 \<le> length xs"
proof (rule ccontr)
  assume "\<not> 2 \<le> length xs"
  then have "length xs = 0 \<or> length xs = 1" by arith
  then have "qcut (map rat_of_nat (rank_first a xs)) 5 labels = Inl ValueError"
  proof
    assume "length xs = 0"
    then show ?thesis by (simp add: qcut_def rank_first_def)
  next
    assume "length xs = 1"
    then have "length (map rat_of_nat (rank_first a xs)) = 1" by (simp add: rank_first_length)
    then show ?thesis by (rule qcut_single_raises)
  qed
  with assms show False by simp
qed

lemma qcut_nth:
  assumes "qcut x q labels = Inr ys" "i < length x"
  shows "ys ! i = labels ! (bin_id (bin_edges x q) (x ! i) - 1)"
  using assms by (auto simp: qcut_def Let_def split: if_splits)

lemma bin_id_ranks_mono:
  assumes "2 \<le> length xs" "i < length xs" "j < length xs" "rank_at a xs i \<le> rank_at a xs j"
  shows "bin_id (bin_edges (map rat_of_nat (rank_first a xs)) 5) (of_nat (rank_at a xs i))
       \<le> bin_id (bin_edges (map rat_of_nat (rank_first a xs)) 5) (of_nat (rank_at a xs j))"
proof -
  let ?bins = "bin_edges (map rat_of_nat (rank_first a xs)) 5"
  let ?v = "rat_of_nat (rank_at a xs i)" and ?w = "rat_of_nat (rank_at a xs j)"
  from assms(1) have ne: "xs \<noteq> []" by auto
  have first: "?bins ! 0 = 1"
    unfolding bin_edges_ranks[OF ne] by (simp add: upt_rec)
  have mem: "?v \<in> set (map rat_of_nat (rank_first a xs))" "?w \<in> set (map rat_of_nat (rank_first a xs))"
    using assms(2,3) by (auto simp: rank_first_nth)
  have vw: "?v \<le> ?w" using assms(4) by simp
  have v1: "1 \<le> ?v" using rank_at_bounds[OF assms(2), of a] by simp
  show ?thesis
  proof (cases "?v = ?bins ! 0")
    case True
    then have "bin_id ?bins ?v = 1" by (simp add: bin_id_def)
    with bin_id_ranks[OF assms(1) mem(2)] show ?thesis by simp
  next
    case False
    with first v1 have "1 < ?v" by simp
    with vw have "?w \<noteq> ?bins ! 0" using first by simp
    with False have "bin_id ?bins ?v = length (filter (\<lambda>b. b < ?v) ?bins)"
      "bin_id ?bins ?w = length (filter (\<lambda>b. b < ?w) ?bins)"
      by (simp_all add: bin_id_def)
    moreover have "length (filter (\<lambda>b. b < ?v) ?bins) \<le> length (filter (\<lambda>b. b < ?w) ?bins)"
      using vw by (intro length_filter_mono) simp
    ultimately show ?thesis by simp
  qed
qed

lemma qcut_ranks_bins:
  assumes "qcut (map rat_of_nat (rank_first a xs)) 5 labels = Inr ys"
    and "i < length xs" "j < length xs" "before a (xs ! i) (xs ! j)"
  shows "\<exists>bi bj. bi \<le> bj \<and> bj < 5 \<and> ys ! i = labels ! bi \<and> ys ! j = labels ! bj"
proof -
  let ?x = "map rat_of_nat (rank_first a xs)"
  let ?bins = "bin_edges ?x 5"
  note n = qcut_ranks_length[OF assms(1)]
  have xi: "?x ! i = of_nat (rank_at a xs i)" and xj: "?x ! j = of_nat (rank_at a xs j)"
    using assms(2,3) by (simp_all add: rank_first_nth)
  have yi: "ys ! i = labels ! (bin_id ?bins (of_nat (rank_at a xs i)) - 1)"
    using qcut_nth[OF assms(1), of i] assms(2) xi by (simp add: rank_first_length)
  have yj: "ys ! j = labels ! (bin_id ?bins (of_nat (rank_at a xs j)) - 1)"
    using qcut_nth[OF assms(1), of j] assms(3) xj by (simp add: rank_first_length)
  have "rank_at a xs i \<le> rank_at a xs j"
    using rank_at_less_of_before[OF assms(2,4)] by simp
  from bin_id_ranks_mono[OF n assms(2,3) this]
  have le: "bin_id ?bins (of_nat (rank_at a xs i)) - 1 \<le> bin_id ?bins (of_nat (rank_at a xs j)) - 1"
    by simp
  have "of_nat (rank_at a xs j) \<in> set ?x" using assms(3) by (auto simp: rank_first_nth)
  from bin_id_ranks[OF n this]
  have "bin_id ?bins (of_nat (rank_at a xs j)) - 1 < 5" by arith
  with le yi yj show ?thesis by blast
qed

lemma labels_ascending: "bi \<le> bj \<Longrightarrow> bj < 5 \<Longrightarrow> [1, 2, 3, 4, 5 :: int] ! bi \<le> [1, 2, 3, 4, 5] ! bj"
  by (auto simp: nth_Cons' less_Suc_eq numeral_eq_Suc)

lemma labels_descending: "bi \<le> bj \<Longrightarrow> bj < 5 \<Longrightarrow> [5, 4, 3, 2, 1 :: int] ! bj \<le> [5, 4, 3, 2, 1] ! bi"
  by (auto simp: nth_Cons' less_Suc_eq numeral_eq_Suc)

lemma customer_rfm_Inr:
  assumes "customer_rfm ref orders = Inr agg"
  obtains rs fs ms where
    "qcut (map of_nat (rank_first False (map crfm_recency agg))) 5 [5, 4, 3, 2, 1] = Inr rs"
    "qcut (map of_nat (rank_first True (map crfm_frequency agg))) 5 [1, 2, 3, 4, 5] = Inr fs"
    "qcut (map of_nat (rank_first True (map crfm_monetary agg))) 5 [1, 2, 3, 4, 5] = Inr ms"
    "map crfm_R_score agg = rs" "map crfm_F_score agg = fs" "map crfm_M_score agg = ms"
proof -
  let ?keys = "group_keys orders"
  let ?recs = "map (\<lambda>d. days (ref - d))
          (map (\<lambda>c. Max (set (map order_date (orders_of orders c)))) ?keys)"
  let ?freqs = "map (\<lambda>c. int (length (orders_of orders c))) ?keys"
  let ?mons = "map (\<lambda>c. sum_list (map final_amount (orders_of orders c))) ?keys"
  from assms obtain rs fs ms where
    rs: "qcut (map of_nat (rank_first False ?recs)) 5 [5, 4, 3, 2, 1] = Inr rs"
    and fs: "qcut (map of_nat (rank_first True ?freqs)) 5 [1, 2, 3, 4, 5] = Inr fs"
    and ms: "qcut (map of_nat (rank_first True ?mons)) 5 [1, 2, 3, 4, 5] = Inr ms"
    and agg: "agg = map (\<lambda>i. \<lparr>crfm_customer_id = ?keys ! i,
                            crfm_last_order_date = (map (\<lambda>c. Max (set (map order_date (orders_of orders c)))) ?keys) ! i,
                            crfm_frequency = ?freqs ! i,
                            crfm_monetary = ?mons ! i,
                            crfm_recency = ?recs ! i,
                            crfm_R_score = rs ! i,
                            crfm_F_score = fs ! i,
                            crfm_M_score = ms ! i\<rparr>) [0..<length ?keys]"
    by (auto simp: customer_rfm_def Let_def split: sum.splits)
  from qcut_labels[OF rs] have lr: "length rs = length ?keys" by (simp add: rank_first_def)
  from qcut_labels[OF fs] have lf: "length fs = length ?keys" by (simp add: rank_first_def)
  from qcut_labels[OF ms] have lm: "length ms = length ?keys" by (simp add: rank_first_def)
  have "map crfm_recency agg = ?recs" "map crfm_frequency agg = ?freqs"
    "map crfm_monetary agg = ?mons"
    unfolding agg by (auto intro!: nth_equalityI)
  moreover have "map crfm_R_score agg = rs" "map crfm_F_score agg = fs" "map crfm_M_score agg = ms"
    unfolding agg using lr lf lm by (auto intro!: nth_equalityI)
  ultimately show ?thesis using rs fs ms that by simp
qed

lemma customer_rfm_score_order:
  assumes "customer_rfm ref orders = Inr agg" "i < length agg" "j < length agg"
  shows "crfm_recency (agg ! i) < crfm_recency (agg ! j)
           \<Longrightarrow> crfm_R_score (agg ! i) \<le> crfm_R_score (agg ! j)"
    and "crfm_frequency (agg ! i) < crfm_frequency (agg ! j)
           \<Longrightarrow> crfm_F_score (agg ! i) \<le> crfm_F_score (agg ! j)"
    and "crfm_monetary (agg ! i) < crfm_monetary (agg ! j)
           \<Longrightarrow> crfm_M_score (agg ! i) \<le> crfm_M_score (agg ! j)"
proof -
  from assms(1) obtain rs fs ms where
    rs: "qcut (map of_nat (rank_first False (map crfm_recency agg))) 5 [5, 4, 3, 2, 1] = Inr rs"
    and fs: "qcut (map of_nat (rank_first True (map crfm_frequency agg))) 5 [1, 2, 3, 4, 5] = Inr fs"
    and ms: "qcut (map of_nat (rank_first True (map crfm_monetary agg))) 5 [1, 2, 3, 4, 5] = Inr ms"
    and sc: "map crfm_R_score agg = rs" "map crfm_F_score agg = fs" "map crfm_M_score agg = ms"
    by (rule customer_rfm_Inr)
  have nth: "crfm_R_score (agg ! k) = rs ! k" "crfm_F_score (agg ! k) = fs ! k"
    "crfm_M_score (agg ! k) = ms ! k" if "k < length agg" for k
    using that sc by (auto simp: nth_map[symmetric] simp del: nth_map)
  show "crfm_R_score (agg ! i) \<le> crfm_R_score (agg ! j)"
    if "crfm_recency (agg ! i) < crfm_recency (agg ! j)"
  proof -
    have "before False (map crfm_recency agg ! j) (map crfm_recency agg ! i)"
      using that assms(2,3) by (simp add: before_def)
    from qcut_ranks_bins[OF rs _ _ this] assms(2,3)
    obtain bj bi where "bj \<le> bi" "bi < 5" "rs ! j = [5, 4, 3, 2, 1] ! bj"
      "rs ! i = [5, 4, 3, 2, 1] ! bi" by auto
    with labels_descending[of bj bi] show ?thesis using nth assms(2,3) by simp
  qed
  show "crfm_F_score (agg ! i) \<le> crfm_F_score (agg ! j)"
    if "crfm_frequency (agg ! i) < crfm_frequency (agg ! j)"
  proof -
    have "before True (map crfm_frequency agg ! i) (map crfm_frequency agg ! j)"
      using that assms(2,3) by (simp add: before_def)
    from qcut_ranks_bins[OF fs _ _ this] assms(2,3)
    obtain bi bj where "bi \<le> bj" "bj < 5" "fs ! i = [1, 2, 3, 4, 5] ! bi"
      "fs ! j = [1, 2, 3, 4, 5] ! bj" by auto
    with labels_ascending[of bi bj] show ?thesis using nth assms(2,3) by simp
  qed
  show "crfm_M_score (agg ! i) \<le> crfm_M_score (agg ! j)"
    if "crfm_monetary (agg ! i) < crfm_monetary (agg ! j)"
  proof -
    have "before True (map crfm_monetary agg ! i) (map crfm_monetary agg ! j)"
      using that assms(2,3) by (simp add: before_def)
    from qcut_ranks_bins[OF ms _ _ this] assms(2,3)
    obtain bi bj where "bi \<le> bj" "bj < 5" "ms ! i = [1, 2, 3, 4, 5] ! bi"
      "ms ! j = [1, 2, 3, 4, 5] ! bj" by auto
    with labels_ascending[of bi bj] show ?thesis using nth assms(2,3) by simp
  qed
qed

text \<open>
  C8: the recency score runs against the claimed direction. The ranks are taken in
  descending order and the labels \<open>[5,4,3,2,1]\<close> are descending too, so the two
  inversions cancel: the customer who ordered 10 days ago scores 1, the one who ordered
  50 days ago scores 5. (For all tables, \<open>customer_rfm_score_order\<close>: a smaller
  recency never gives a higher recency score.)
\<close>

theorem recency_score_inverted:
  "(case snd (calculate_rfm_scores ex_rfm ex_orders ex_customers) of
      Inl e \<Rightarrow> None
    | Inr tbl \<Rightarrow> Some (map (\<lambda>r. (customer_id r, recency r, R_score r)) (take 5 tbl)))
   = Some [(1, 10, 1), (2, 20, 2), (3, 30, 3), (4, 40, 4), (5, 50, 5)]"
  by code_simp

text \<open>
  C1: the customer without orders takes the defaults (recency 999, frequency 0, monetary
  0, scores 1, 1, 1, composite \<open>111\<close>), and the priority list gives the triple
  \<open>(1,1,1)\<close> to Hibernating, which stands before Lost and contains its box.
\<close>

theorem zero_order_customer_hibernating:
  "(case snd (assign_segments (fst (calculate_rfm_scores ex_rfm ex_orders ex_customers))) of
      Inl e \<Rightarrow> None
    | Inr tbl \<Rightarrow> Some (map (\<lambda>r. (customer_id r, recency r, frequency r, monetary r,
                                 R_score r, F_score r, M_score r, RFM_score r, segment r))
                           (filter (\<lambda>r. customer_id r = 6) tbl)))
   = Some [(6, 999, 0, 0, 1, 1, 1, ''111'', Some ''Hibernating'')]"
  by code_simp

section \<open>Properties of the CLV engine\<close>

lemma predictive_before_historical:
  "clv_data self = None \<Longrightarrow> calculate_predictive_clv self orders_df = (self, Inl ValueError)"
  by (simp add: calculate_predictive_clv_def)

lemma segment_before_historical:
  "clv_data self = None \<Longrightarrow> segment_customers_by_clv self = (self, Inl ValueError)"
  by (simp add: segment_customers_by_clv_def)

lemma predictive_not_historical: "''predictive_clv'' \<notin> set historical_columns"
  by (simp add: historical_columns_def)

text \<open>
  C4: the guard of \<^verbatim>\<open>segment_customers_by_clv\<close> tests only that a table is stored.
  After \<^verbatim>\<open>calculate_historical_clv\<close> alone a table is stored, the guard passes, and the
  read of the column \<open>predictive_clv\<close>, which the table does not have, raises KeyError
  and not the usage error. (Before any table is stored both later stages do raise the
  usage error and leave the analyzer as it was: \<open>predictive_before_historical\<close>,
  \<open>segment_before_historical\<close>.)
\<close>

theorem segment_after_historical_raises_KeyError:
  "segment_customers_by_clv (fst (calculate_historical_clv self orders_df customers_df))
     = (fst (calculate_historical_clv self orders_df customers_df), Inl KeyError)"
  by (simp add: segment_customers_by_clv_def calculate_historical_clv_def Let_def
        predictive_not_historical)

text \<open>
  On the example tables: the table is stored, the call raises KeyError.
\<close>

theorem segment_after_historical_raises_KeyError_witness:
  "snd (segment_customers_by_clv (fst (calculate_historical_clv ex_clv ex_orders ex_customers)))
     = Inl KeyError \<and> KeyError \<noteq> ValueError
   \<and> clv_data (fst (calculate_historical_clv ex_clv ex_orders ex_customers)) \<noteq> None"
proof -
  have "snd (segment_customers_by_clv (fst (calculate_historical_clv ex_clv ex_orders ex_customers)))
     = Inl KeyError"
    using segment_after_historical_raises_KeyError[of ex_clv ex_orders ex_customers] by simp
  moreover have "clv_data (fst (calculate_historical_clv ex_clv ex_orders ex_customers)) \<noteq> None"
    by (simp add: calculate_historical_clv_def Let_def)
  ultimately show ?thesis by simp
qed

lemma trend_data_ids:
  "map tr_customer_id (trend_data orders) = group_keys (recent_orders orders)"
  by (simp add: trend_data_def Let_def comp_def)

lemma set_group_keys: "set (group_keys orders) = order_customer_id ` set orders"
  by (simp add: group_keys_def)

lemma trend_multiplier_of_growth:
  assumes "t \<in> set (trend_data orders)"
  shows "tr_trend_multiplier t = clip (1 + tr_spending_growth_rate t * (1 / 2)) (1 / 2) 2"
  using assms by (auto simp: trend_data_def Let_def)

lemma find_trend_absent:
  assumes "c \<notin> order_customer_id ` set (recent_orders orders)"
  shows "find (\<lambda>t. tr_customer_id t = c) (trend_data orders) = None"
proof -
  have "tr_customer_id t \<noteq> c" if "t \<in> set (trend_data orders)" for t
  proof -
    from that have "tr_customer_id t \<in> set (map tr_customer_id (trend_data orders))" by simp
    then have "tr_customer_id t \<in> order_customer_id ` set (recent_orders orders)"
      by (simp only: trend_data_ids set_group_keys)
    with assms show ?thesis by auto
  qed
  then show ?thesis by (simp add: find_None_iff)
qed

lemma merge_trend_fields:
  assumes "''spending_growth_rate'' \<notin> set cols" "''trend_multiplier'' \<notin> set cols"
  shows "customer_id (merge_trend cols (trend_data orders) r) = customer_id r"
    and "historical_clv (merge_trend cols (trend_data orders) r) = historical_clv r"
    and "spending_growth_rate (merge_trend cols (trend_data orders) r) = Some 0
           \<Longrightarrow> trend_multiplier (merge_trend cols (trend_data orders) r) = Some 1"
    and "customer_id r \<notin> order_customer_id ` set (recent_orders orders)
           \<Longrightarrow> spending_growth_rate (merge_trend cols (trend_data orders) r) = Some 0
             \<and> trend_multiplier (merge_trend cols (trend_data orders) r) = Some 1"
proof -
  show "customer_id (merge_trend cols (trend_data orders) r) = customer_id r"
    by (simp add: merge_trend_def Let_def)
  show "historical_clv (merge_trend cols (trend_data orders) r) = historical_clv r"
    by (simp add: merge_trend_def Let_def)
  show "trend_multiplier (merge_trend cols (trend_data orders) r) = Some 1"
    if g: "spending_growth_rate (merge_trend cols (trend_data orders) r) = Some 0"
  proof (cases "find (\<lambda>t. tr_customer_id t = customer_id r) (trend_data orders)")
    case None
    with assms show ?thesis by (simp add: merge_trend_def Let_def)
  next
    case (Some t)
    then have "t \<in> set (trend_data orders)" by (auto simp: find_Some_iff)
    from trend_multiplier_of_growth[OF this] g Some assms
    show ?thesis by (simp add: merge_trend_def Let_def clip_def)
  qed
  show "spending_growth_rate (merge_trend cols (trend_data orders) r) = Some 0
             \<and> trend_multiplier (merge_trend cols (trend_data orders) r) = Some 1"
    if "customer_id r \<notin> order_customer_id ` set (recent_orders orders)"
    using find_trend_absent[OF that] assms by (simp add: merge_trend_def Let_def)
qed

lemma right_labels_eq:
  "right_labels cols =
     [if ''spending_growth_rate'' \<in> set cols then ''spending_growth_rate_y'' else ''spending_growth_rate'',
      if ''trend_multiplier'' \<in> set cols then ''trend_multiplier_y'' else ''trend_multiplier'']"
  by (simp add: right_labels_def trend_columns_def)

lemma tm_not_left:
  assumes "''trend_multiplier'' \<in> set (left_labels cols)"
  shows False
proof -
  from assms obtain c where c: "c \<in> set cols"
    "(if c \<in> set trend_columns then c @ ''_x'' else c) = ''trend_multiplier''"
    by (auto simp: left_labels_def)
  show False
  proof (cases "c \<in> set trend_columns")
    case True
    then have "c = ''spending_growth_rate'' \<or> c = ''trend_multiplier''"
      by (simp add: trend_columns_def)
    with c(2) True show False by auto
  next
    case False
    with c(2) have "c = ''trend_multiplier''" by simp
    with False show False by (simp add: trend_columns_def)
  qed
qed

lemma trend_multiplier_in_merged:
  "''trend_multiplier'' \<in> set (left_labels cols @ right_labels cols)
     \<longleftrightarrow> ''trend_multiplier'' \<notin> set cols"
proof
  assume a: "''trend_multiplier'' \<in> set (left_labels cols @ right_labels cols)"
  with tm_not_left[of cols] have "''trend_multiplier'' \<in> set (right_labels cols)" by auto
  then show "''trend_multiplier'' \<notin> set cols"
    by (auto simp: right_labels_eq split: if_splits)
next
  assume "''trend_multiplier'' \<notin> set cols"
  then show "''trend_multiplier'' \<in> set (left_labels cols @ right_labels cols)"
    by (simp add: right_labels_eq)
qed

lemma calculate_predictive_clv_result:
  assumes "clv_data self = Some df"
  shows "snd (calculate_predictive_clv self orders_df) =
     (if ''customer_id'' \<notin> set (clv_columns df) then Inl KeyError
      else if distinct (clv_columns df) \<and> \<not> distinct (left_labels (clv_columns df)) then Inl MergeError
      else if ''historical_clv'' \<notin> set (left_labels (clv_columns df) @ right_labels (clv_columns df))
              \<or> ''trend_multiplier'' \<notin> set (left_labels (clv_columns df) @ right_labels (clv_columns df))
      then Inl KeyError
      else Inr (map (\<lambda>r. r\<lparr>predictive_clv :=
                 map_option (\<lambda>m. historical_clv r * m) (trend_multiplier r)\<rparr>)
              (map (merge_trend (clv_columns df) (trend_data orders_df)) (clv_rows df))))"
  using assms by (simp add: calculate_predictive_clv_def Let_def)

lemma calculate_predictive_clv_Inr:
  assumes "clv_data self = Some df" "snd (calculate_predictive_clv self orders_df) = Inr tbl"
  shows "''trend_multiplier'' \<in> set (left_labels (clv_columns df) @ right_labels (clv_columns df))"
    and "tbl = map (\<lambda>r. r\<lparr>predictive_clv :=
                 map_option (\<lambda>m. historical_clv r * m) (trend_multiplier r)\<rparr>)
              (map (merge_trend (clv_columns df) (trend_data orders_df)) (clv_rows df))"
proof -
  note r = calculate_predictive_clv_result[OF assms(1), of orders_df]
  show "''trend_multiplier'' \<in> set (left_labels (clv_columns df) @ right_labels (clv_columns df))"
  proof (rule ccontr)
    assume "\<not> ?thesis"
    with r have "snd (calculate_predictive_clv self orders_df) = Inl KeyError
       \<or> snd (calculate_predictive_clv self orders_df) = Inl MergeError"
      by (simp only: if_True if_False split: if_splits) auto
    with assms(2) show False by auto
  qed
  show "tbl = map (\<lambda>r. r\<lparr>predictive_clv :=
                 map_option (\<lambda>m. historical_clv r * m) (trend_multiplier r)\<rparr>)
              (map (merge_trend (clv_columns df) (trend_data orders_df)) (clv_rows df))"
    using r assms(2) by (simp only: split: if_splits) auto
qed

text \<open>
  C9: in the table \<^verbatim>\<open>calculate_predictive_clv\<close> returns, a customer whose growth rate is
  exactly 0 has trend multiplier 1 and a predictive CLV equal to the historical one; a
  customer with no order in the last 180 days before the latest order date gets growth
  rate 0 and multiplier 1, so the same. The stored table must not already have a column
  \<open>spending_growth_rate\<close>, as is the case after \<^verbatim>\<open>calculate_historical_clv\<close>, after
  which the call does return (\<open>predictive_after_historical_returns\<close>).
\<close>

theorem predictive_equals_historical_at_zero_growth:
  assumes "clv_data self = Some df"
    and "''spending_growth_rate'' \<notin> set (clv_columns df)"
    and "snd (calculate_predictive_clv self orders_df) = Inr tbl"
    and "row \<in> set tbl"
  shows "(spending_growth_rate row = Some 0 \<longrightarrow>
            trend_multiplier row = Some 1 \<and> predictive_clv row = Some (historical_clv row))
       \<and> (customer_id row \<notin> order_customer_id ` set (recent_orders orders_df) \<longrightarrow>
            spending_growth_rate row = Some 0 \<and> trend_multiplier row = Some 1
            \<and> predictive_clv row = Some (historical_clv row))"
proof -
  let ?cols = "clv_columns df"
  let ?merged = "map (merge_trend ?cols (trend_data orders_df)) (clv_rows df)"
  note tm = calculate_predictive_clv_Inr(1)[OF assms(1,3)]
  note tbl = calculate_predictive_clv_Inr(2)[OF assms(1,3)]
  from tm have ntm: "''trend_multiplier'' \<notin> set ?cols"
    using trend_multiplier_in_merged[of ?cols] by blast
  from assms(4) tbl obtain r where r: "r \<in> set (clv_rows df)"
    and row: "row = (merge_trend ?cols (trend_data orders_df) r)\<lparr>predictive_clv :=
        map_option (\<lambda>m. historical_clv (merge_trend ?cols (trend_data orders_df) r) * m)
          (trend_multiplier (merge_trend ?cols (trend_data orders_df) r))\<rparr>"
    by auto
  note f = merge_trend_fields[OF assms(2) ntm, where orders = orders_df and r = r]
  have a: "trend_multiplier row = Some 1 \<and> predictive_clv row = Some (historical_clv row)"
    if "spending_growth_rate row = Some 0"
  proof -
    from that row have "spending_growth_rate (merge_trend ?cols (trend_data orders_df) r) = Some 0"
      by simp
    from f(3)[OF this] row show ?thesis by simp
  qed
  have b: "spending_growth_rate row = Some 0 \<and> trend_multiplier row = Some 1
            \<and> predictive_clv row = Some (historical_clv row)"
    if "customer_id row \<notin> order_customer_id ` set (recent_orders orders_df)"
  proof -
    from that row f(1) have "customer_id r \<notin> order_customer_id ` set (recent_orders orders_df)"
      by simp
    from f(4)[OF this] row show ?thesis by simp
  qed
  from a b show ?thesis by blast
qed

lemma predictive_after_historical_returns:
  "\<exists>tbl. snd (calculate_predictive_clv (fst (calculate_historical_clv self orders_df customers_df))
            orders_df') = Inr tbl \<and> length tbl = length customers_df"
  by (simp add: calculate_predictive_clv_def calculate_historical_clv_def Let_def
        historical_columns_def left_labels_def right_labels_def trend_columns_def)

lemma ex_predictive_rows:
  "(case snd (calculate_predictive_clv (fst (calculate_historical_clv ex_clv ex_orders ex_customers))
        ex_orders) of
      Inl e \<Rightarrow> False
    | Inr tbl \<Rightarrow> length tbl = 6 \<and> list_all (\<lambda>row. spending_growth_rate row = Some 0) tbl)"
  by code_simp

text \<open>
  On the example tables the call returns six rows, all with growth rate 0 and a
  predictive CLV equal to the historical one.
\<close>

theorem predictive_equals_historical_at_zero_growth_witness:
  "\<exists>tbl. snd (calculate_predictive_clv (fst (calculate_historical_clv ex_clv ex_orders ex_customers))
            ex_orders) = Inr tbl
     \<and> length tbl = 6
     \<and> list_all (\<lambda>row. spending_growth_rate row = Some 0
                    \<and> predictive_clv row = Some (historical_clv row)) tbl"
proof -
  let ?self = "fst (calculate_historical_clv ex_clv ex_orders ex_customers)"
  let ?df = "\<lparr>clv_columns = historical_columns,
              clv_rows = map (merge_stats (customer_stats ex_orders)) ex_customers\<rparr>"
  obtain tbl where t: "snd (calculate_predictive_clv ?self ex_orders) = Inr tbl"
    and len: "length tbl = 6"
    and g: "list_all (\<lambda>row. spending_growth_rate row = Some 0) tbl"
    using ex_predictive_rows by (auto split: sum.splits)
  have d: "clv_data ?self = Some ?df"
    by (simp add: calculate_historical_clv_def Let_def)
  have c: "''spending_growth_rate'' \<notin> set (clv_columns ?df)"
    by (simp add: historical_columns_def)
  have "spending_growth_rate row = Some 0 \<and> predictive_clv row = Some (historical_clv row)"
    if "row \<in> set tbl" for row
  proof -
    from g that have z: "spending_growth_rate row = Some 0" by (simp add: list_all_iff)
    with predictive_equals_historical_at_zero_growth[OF d c t that] show ?thesis by blast
  qed
  then have "list_all (\<lambda>row. spending_growth_rate row = Some 0
                    \<and> predictive_clv row = Some (historical_clv row)) tbl"
    by (simp add: list_all_iff)
  with t len show ?thesis by blast
qed

section \<open>Properties of the cohort engine\<close>

text \<open>
  C2: two customers sign up in January 1970, one of them orders in that month and the
  other never does. The cohort has an order in its origin period, and its retention at
  period 0 is 1/2: the active customer over the two customers of the customer table.
\<close>

theorem period_0_retention_below_one:
  "snd (create_signup_cohorts ex_cohort ex_signups ex_first_order)
     = [\<lparr>cohort_group = 0, period_number = 0, active_customers = 1, total_customers = 2,
         retention_rate = 1 / 2\<rparr>]"
  by code_simp

lemma get_cohort_insights_one_column:
  assumes "retention_table self = Some rt" "length (rt_columns rt) = 1"
  shows "get_cohort_insights self = Inl UnboundLocalError"
  using assms by (simp add: get_cohort_insights_def Let_def)

lemma get_cohort_insights_returns:
  assumes "get_cohort_insights self = Inr ins"
  shows "\<exists>rt. retention_table self = Some rt \<and> 2 \<le> length (rt_columns rt)
           \<and> 1 \<in> set (rt_columns rt)"
proof (cases "retention_table self")
  case None
  with assms show ?thesis by (simp add: get_cohort_insights_def)
next
  case (Some rt)
  show ?thesis
  proof (cases "length (rt_columns rt) > 1")
    case False
    with Some assms show ?thesis by (simp add: get_cohort_insights_def Let_def)
  next
    case True
    with Some assms have "1 \<in> set (rt_columns rt)"
      by (simp add: get_cohort_insights_def Let_def split: if_splits)
    with Some True show ?thesis by simp
  qed
qed

lemma get_cohort_insights_total:
  assumes "retention_table self = Some rt" "2 \<le> length (rt_columns rt)" "1 \<in> set (rt_columns rt)"
  shows "\<exists>ins. get_cohort_insights self = Inr ins"
  using assms by (simp add: get_cohort_insights_def Let_def)

lemma create_retention_table_state:
  assumes "snd (create_retention_table self) = Inr rt"
  shows "retention_table (fst (create_retention_table self)) = Some rt"
  using assms by (auto simp: create_retention_table_def Let_def split: option.splits)

text \<open>
  C10: \<^verbatim>\<open>get_cohort_insights\<close> returns only when the stored retention table has at
  least two columns; with exactly one column it raises UnboundLocalError, also right
  after \<^verbatim>\<open>create_retention_table\<close> built such a table.
\<close>

theorem get_cohort_insights_unbound_variable:
  "(get_cohort_insights self = Inr ins \<longrightarrow>
      (\<exists>rt. retention_table self = Some rt \<and> 2 \<le> length (rt_columns rt)))
   \<and> (retention_table self = Some rt \<and> length (rt_columns rt) = 1 \<longrightarrow>
        get_cohort_insights self = Inl UnboundLocalError)
   \<and> (snd (create_retention_table self) = Inr rt \<and> length (rt_columns rt) = 1 \<longrightarrow>
        get_cohort_insights (fst (create_retention_table self)) = Inl UnboundLocalError)"
proof (intro conjI impI)
  assume "get_cohort_insights self = Inr ins"
  from get_cohort_insights_returns[OF this]
  show "\<exists>rt. retention_table self = Some rt \<and> 2 \<le> length (rt_columns rt)" by blast
next
  assume "retention_table self = Some rt \<and> length (rt_columns rt) = 1"
  then show "get_cohort_insights self = Inl UnboundLocalError"
    using get_cohort_insights_one_column by blast
next
  assume a: "snd (create_retention_table self) = Inr rt \<and> length (rt_columns rt) = 1"
  then have "retention_table (fst (create_retention_table self)) = Some rt"
    using create_retention_table_state by blast
  with a show "get_cohort_insights (fst (create_retention_table self)) = Inl UnboundLocalError"
    using get_cohort_insights_one_column by blast
qed

lemma ex_retention_one_column:
  "snd (create_retention_table (fst (create_signup_cohorts ex_cohort ex_signups ex_first_order)))
     = Inr \<lparr>rt_float_labels = False, rt_index = [0], rt_columns = [0],
            rt_values = [[1 / 2]]\<rparr>"
  by code_simp

lemma ex_insights_return:
  "get_cohort_insights (fst (create_retention_table
       (fst (create_signup_cohorts ex_cohort ex_customers ex_orders))))
     = Inr \<lparr>retention_trends = Some (Val (1 / 6), Val (1 / 6), PyNone),
            cohort_performance =
              [(0, \<lparr>initial_retention = 1 / 2, avg_retention = Val (1 / 3),
                     retention_decline = 1 / 3\<rparr>)],
            business_insights = [Retention_1_month_low, Decline_stable],
            recommendations =
              [Improve_onboarding, Strengthen_follow_up, Collect_feedback,
               Develop_retention_program, Personalised_campaigns, Consider_loyalty_program,
               Cohort_marketing_strategy, Early_churn_detection,
               Lifecycle_service_improvement]\<rparr>"
  by code_simp

text \<open>
  With an order of a customer the customer table lacks, the period numbers are floats,
  the retention table is the same but float-labelled, and the average retention of a
  cohort is taken over the periods from 1 on, here all three.
\<close>

lemma ex_insights_float_labels:
  "(case get_cohort_insights (fst (create_retention_table
       (fst (create_signup_cohorts ex_cohort ex_customers ex_orders_unmatched)))) of
      Inl e \<Rightarrow> None
    | Inr ins \<Rightarrow> Some (cohort_performance ins))
     = Some [(0, \<lparr>initial_retention = 1 / 2, avg_retention = Val (5 / 18),
                     retention_decline = 1 / 3\<rparr>)]"
  by code_simp

text \<open>
  A cohort whose only orders fall in the signup month gives a table with the single
  column 0, and the call raises UnboundLocalError, which is not the ValueError of the
  guard; the call on the example tables returns, on a table of three columns.
\<close>

theorem get_cohort_insights_unbound_variable_witness:
  "get_cohort_insights (fst (create_retention_table
       (fst (create_signup_cohorts ex_cohort ex_signups ex_first_order))))
     = Inl UnboundLocalError
   \<and> UnboundLocalError \<noteq> ValueError
   \<and> (\<exists>rt. retention_table (fst (create_retention_table
       (fst (create_signup_cohorts ex_cohort ex_customers ex_orders)))) = Some rt
       \<and> 2 \<le> length (rt_columns rt))"
proof -
  let ?one = "fst (create_signup_cohorts ex_cohort ex_signups ex_first_order)"
  let ?rt = "\<lparr>rt_float_labels = False, rt_index = [0], rt_columns = [0],
             rt_values = [[1 / 2]]\<rparr>"
  have "snd (create_retention_table ?one) = Inr ?rt \<and> length (rt_columns ?rt) = 1"
    using ex_retention_one_column by simp
  with get_cohort_insights_unbound_variable[of ?one _ ?rt]
  have "get_cohort_insights (fst (create_retention_table ?one)) = Inl UnboundLocalError"
    by blast
  moreover from get_cohort_insights_unbound_variable[of "fst (create_retention_table
       (fst (create_signup_cohorts ex_cohort ex_customers ex_orders)))"] ex_insights_return
  have "\<exists>rt. retention_table (fst (create_retention_table
       (fst (create_signup_cohorts ex_cohort ex_customers ex_orders)))) = Some rt
       \<and> 2 \<le> length (rt_columns rt)"
    by blast
  ultimately show ?thesis by simp
qed

section \<open>Properties of the behavioral segment names\<close>

lemma segment_profiles_ids:
  "map segment_id (segment_profiles round2 rfm cluster_labels)
     = sort (remdups (take (length rfm) cluster_labels))"
  by (simp add: segment_profiles_def Let_def comp_def)

lemma segment_profiles_distinct:
  "distinct (map segment_id (segment_profiles round2 rfm cluster_labels))"
  by (simp add: segment_profiles_ids)

text \<open>
  The profile table of the example clusters, for every rounding that leaves the whole
  numbers it meets.
\<close>

lemma ex_cluster_rows:
  "map fst (filter (\<lambda>(r, l). l = 0) (zip ex_clustered ex_cluster_labels))
     = map (\<lambda>c. ex_rfm_row c 1 10 50) [1, 2, 3, 4, 5, 6, 7, 8, 9]"
  "map fst (filter (\<lambda>(r, l). l = Suc 0) (zip ex_clustered ex_cluster_labels))
     = [ex_rfm_row 10 10 100 5]"
  "map fst (filter (\<lambda>(r, l). l = 2) (zip ex_clustered ex_cluster_labels))
     = [ex_rfm_row 11 3 30 10]"
  "sort (remdups (take (length ex_clustered) ex_cluster_labels)) = [0, Suc 0, 2]"
  by (simp_all add: ex_clustered_def ex_cluster_labels_def)

lemma ex_profiles_of_clusters:
  assumes "round2 1 = 1" "round2 3 = 3" "round2 5 = 5" "round2 10 = 10" "round2 30 = 30"
    "round2 50 = 50" "round2 100 = 100"
  shows "segment_profiles round2 ex_clustered ex_cluster_labels = ex_profiles"
  unfolding segment_profiles_def Let_def ex_cluster_rows(4) list.map ex_cluster_rows(1-3)
  by (simp add: ex_profiles_def ex_rfm_row_def average_def assms)

lemma ex_profile_names:
  "assign_behavioral_segment_names ex_profiles
     = [(0, Low_engagement), (1, VIP), (2, New_general)]"
  by code_simp

lemma ex_clusters_named:
  assumes "round2 1 = 1" "round2 3 = 3" "round2 5 = 5" "round2 10 = 10" "round2 30 = 30"
    "round2 50 = 50" "round2 100 = 100"
  shows "behavioral_segment_names round2 ex_clustered ex_cluster_labels 2 = Some New_general"
  by (simp add: behavioral_segment_names_def ex_profiles_of_clusters[OF assms]
        ex_profile_names)

text \<open>
  C6: the cluster of the one customer with frequency 3 and monetary 30 lies above the
  means over all eleven customers (2 and 20) and its recency 10 below their mean recency
  (465/11), so the claim names it VIP; the code reads only the profile table, compares
  with the averages of the three cluster means (14/3, 140/3 and 65/3) and names the
  cluster new/general.
\<close>

theorem behavioral_names_use_mean_of_cluster_means:
  "map_of (assign_behavioral_segment_names ex_profiles) 2 = Some New_general
   \<and> average (map frequency_mean ex_profiles) = 14 / 3
   \<and> average (map monetary_mean ex_profiles) = 140 / 3
   \<and> average (map recency_mean ex_profiles) = 65 / 3
   \<and> average (map (\<lambda>r. of_int (frequency r)) ex_clustered) = 2
   \<and> average (map monetary ex_clustered) = 20
   \<and> average (map (\<lambda>r. of_int (recency r)) ex_clustered) = 465 / 11
   \<and> map (spec_behavioral_name ex_clustered) (filter (\<lambda>p. segment_id p = 2) ex_profiles)
       = [VIP]"
  by code_simp

section \<open>What the operations do to the tables they are passed\<close>

lemma other_columns_replace:
  "c \<in> set cs \<Longrightarrow>
     other_columns cs (map (\<lambda>(n, v). if n = c then (n, col) else (n, v)) df) = other_columns cs df"
  by (induction df) (auto simp: other_columns_def split: if_splits)

lemma other_columns_set_column:
  "c \<in> set cs \<Longrightarrow> other_columns cs (set_column df c col) = other_columns cs df"
  using other_columns_replace[of c cs col df]
  by (simp add: set_column_def) (simp add: other_columns_def)

lemma map_of_replace:
  "c \<in> fst ` set df \<Longrightarrow>
     map_of (map (\<lambda>(n, v). if n = c then (n, col) else (n, v)) df) c = Some col"
  by (induction df) auto

lemma map_of_replace_other:
  "c' \<noteq> c \<Longrightarrow>
     map_of (map (\<lambda>(n, v). if n = c then (n, col) else (n, v)) df) c' = map_of df c'"
  by (induction df) auto

lemma names_replace:
  "map fst (map (\<lambda>(n, v). if n = c then (n, col) else (n, v)) df) = map fst df"
  by (induction df) auto

lemma map_of_set_column: "map_of (set_column df c col) c = Some col"
proof (cases "c \<in> fst ` set df")
  case True
  then show ?thesis by (simp add: set_column_def map_of_replace)
next
  case False
  then have "map_of df c = None" by (simp add: map_of_eq_None_iff)
  with False show ?thesis by (simp add: set_column_def map_add_def)
qed

lemma map_of_set_column_other:
  "c' \<noteq> c \<Longrightarrow> map_of (set_column df c col) c' = map_of df c'"
  by (simp add: set_column_def map_of_replace_other map_add_def split: option.splits)

lemma names_set_column:
  "map fst (set_column df c col)
     = map fst df @ filter (\<lambda>n. n \<notin> fst ` set df) [c]"
  using names_replace[of c col df] by (simp add: set_column_def del: map_map)

lemma set_column_same:
  assumes "distinct (map fst df)" "map_of df c = Some col"
  shows "set_column df c col = df"
proof -
  from assms(2) have mem: "c \<in> fst ` set df" by (metis map_of_eq_None_iff option.distinct(1))
  have "(case x of (n, v) \<Rightarrow> if n = c then (n, col) else (n, v)) = x" if "x \<in> set df" for x
  proof (cases x)
    case (Pair n v)
    with that assms(1) have "map_of df n = Some v" by (simp add: map_of_is_SomeI)
    with assms(2) Pair show ?thesis by auto
  qed
  then have "map (\<lambda>(n, v). if n = c then (n, col) else (n, v)) df = df"
    by (simp add: map_idI)
  with mem show ?thesis by (simp add: set_column_def)
qed

lemma columns_assigned_one: "columns_assigned [(c, col)] df (set_column df c col)"
  by (simp add: columns_assigned_def names_set_column map_of_set_column
        other_columns_set_column)

lemma columns_assigned_two:
  assumes "c \<in> fst ` set df" "c \<noteq> c'"
  shows "columns_assigned [(c, col), (c', col')] df (set_column (set_column df c col) c' col')"
proof -
  have names: "map fst (set_column df c col) = map fst df"
    using assms(1) by (simp add: names_set_column)
  then have "fst ` set (set_column df c col) = fst ` set df"
    by (metis list.set_map)
  then have "map fst (set_column (set_column df c col) c' col')
      = map fst df @ filter (\<lambda>n. n \<notin> fst ` set df) [c, c']"
    using assms(1) names by (simp add: names_set_column)
  moreover have "map_of (set_column (set_column df c col) c' col') c = Some col"
    using assms(2) by (simp add: map_of_set_column_other map_of_set_column)
  moreover have "map_of (set_column (set_column df c col) c' col') c' = Some col'"
    by (simp add: map_of_set_column)
  moreover have "other_columns [c, c'] (set_column (set_column df c col) c' col')
      = other_columns [c, c'] df"
    by (simp add: other_columns_set_column)
  ultimately show ?thesis by (simp add: columns_assigned_def)
qed

lemma to_datetime_parsed: "list_all is_datetime col \<Longrightarrow> to_datetime parse col = Inr col"
  by (induction col) (auto simp: is_datetime_def split: cell.splits)

lemma convert_column_Some:
  assumes "converted_column parse c df = Some col'"
  shows "convert_column parse c df = Inr (set_column df c col')" and "c \<in> fst ` set df"
proof -
  from assms obtain col where col: "map_of df c = Some col" "to_datetime parse col = Inr col'"
    by (auto simp: converted_column_def split: option.splits sum.splits)
  then show "convert_column parse c df = Inr (set_column df c col')"
    by (simp add: convert_column_def get_column_def)
  from col(1) show "c \<in> fst ` set df" by (metis map_of_eq_None_iff option.distinct(1))
qed

lemma convert_column_None:
  assumes "converted_column parse c df = None"
  shows "\<exists>e. convert_column parse c df = Inl e"
  using assms
  by (auto simp: converted_column_def convert_column_def get_column_def
           split: option.splits sum.splits)

lemma assign_period_converted:
  "assign_period freq c c' (set_column df c col')
     = set_column (set_column df c col') c' (map (period_cell freq) col')"
  by (simp add: assign_period_def map_of_set_column)

lemma dates_converted_convert:
  "dates_converted parse c df
     (case convert_column parse c df of Inl e \<Rightarrow> df | Inr df' \<Rightarrow> df')"
proof (cases "converted_column parse c df")
  case None
  from convert_column_None[OF this] None show ?thesis
    by (auto simp: dates_converted_def)
next
  case (Some col')
  from convert_column_Some(1)[OF this] Some show ?thesis
    by (simp add: dates_converted_def columns_assigned_one)
qed

lemma periods_assigned_convert:
  assumes "converted_column parse c df = Some col'" "c \<noteq> c'"
  shows "periods_assigned parse freq c c' df (assign_period freq c c' (set_column df c col'))"
  using assms convert_column_Some(2)[OF assms(1)]
  by (simp add: periods_assigned_def assign_period_converted columns_assigned_two)

text \<open>What each operation leaves on the tables it was passed.\<close>

lemma rfm_tables:
  "dates_converted parse ''order_date'' orders_df
     (fst (fst (calculate_rfm_scores_tables parse orders_df customers_df)))
   \<and> snd (fst (calculate_rfm_scores_tables parse orders_df customers_df)) = customers_df"
  using dates_converted_convert[of parse "''order_date''" orders_df]
  by (auto simp: calculate_rfm_scores_tables_def split: sum.splits)

lemma historical_tables:
  "dates_converted parse ''order_date'' orders_df
     (fst (fst (calculate_historical_clv_tables parse orders_df customers_df)))
   \<and> (if converted_column parse ''order_date'' orders_df = None
       then snd (fst (calculate_historical_clv_tables parse orders_df customers_df)) = customers_df
       else dates_converted parse ''signup_date'' customers_df
              (snd (fst (calculate_historical_clv_tables parse orders_df customers_df))))"
proof (cases "converted_column parse ''order_date'' orders_df")
  case None
  from convert_column_None[OF this] None show ?thesis
    by (auto simp: calculate_historical_clv_tables_def dates_converted_def)
next
  case (Some col')
  from convert_column_Some(1)[OF this] Some
    dates_converted_convert[of parse "''signup_date''" customers_df]
  show ?thesis
    by (auto simp: calculate_historical_clv_tables_def dates_converted_def columns_assigned_one
             split: sum.splits option.splits)
qed

lemma predictive_tables:
  "(if clv_data self = None
    then fst (calculate_predictive_clv_tables self parse orders_df) = orders_df
    else dates_converted parse ''order_date'' orders_df
           (fst (calculate_predictive_clv_tables self parse orders_df)))"
  using dates_converted_convert[of parse "''order_date''" orders_df]
  by (auto simp: calculate_predictive_clv_tables_def split: sum.splits option.splits)

lemma signup_cohorts_tables:
  "(case fst (create_signup_cohorts_tables self parse customers_df orders_df) of
      (orders', customers') \<Rightarrow>
        cohort_columns_assigned parse (period_freq (period_type self))
          customers_df orders_df customers' orders')"
proof (cases "converted_column parse ''signup_date'' customers_df")
  case None
  from convert_column_None[OF this] None show ?thesis
    by (auto simp: create_signup_cohorts_tables_def cohort_columns_assigned_def)
next
  case sc: (Some sc')
  show ?thesis
  proof (cases "converted_column parse ''order_date'' orders_df")
    case None
    from convert_column_None[OF this] None convert_column_Some(1)[OF sc] sc
    show ?thesis
      by (auto simp: create_signup_cohorts_tables_def cohort_columns_assigned_def
            dates_converted_def columns_assigned_one)
  next
    case oc: (Some oc')
    from convert_column_Some(1)[OF sc] convert_column_Some(1)[OF oc] sc oc
      periods_assigned_convert[OF sc, of "''cohort_group''" "period_freq (period_type self)"]
      periods_assigned_convert[OF oc, of "''order_period''" "period_freq (period_type self)"]
    show ?thesis
      by (simp add: create_signup_cohorts_tables_def cohort_columns_assigned_def)
  qed
qed

lemma revenue_cohorts_tables:
  "(case fst (analyze_revenue_cohorts_tables self parse customers_df orders_df) of
      (orders', customers') \<Rightarrow>
        if period_type self = ''monthly''
        then cohort_columns_assigned parse ''M'' customers_df orders_df customers' orders'
        else if converted_column parse ''signup_date'' customers_df = None
        then customers' = customers_df \<and> orders' = orders_df
        else dates_converted parse ''signup_date'' customers_df customers'
             \<and> dates_converted parse ''order_date'' orders_df orders')"
proof (cases "converted_column parse ''signup_date'' customers_df")
  case None
  from convert_column_None[OF this] None show ?thesis
    by (auto simp: analyze_revenue_cohorts_tables_def cohort_columns_assigned_def)
next
  case sc: (Some sc')
  show ?thesis
  proof (cases "converted_column parse ''order_date'' orders_df")
    case None
    from convert_column_None[OF this] None convert_column_Some(1)[OF sc] sc
    show ?thesis
      by (auto simp: analyze_revenue_cohorts_tables_def cohort_columns_assigned_def
            dates_converted_def columns_assigned_one)
  next
    case oc: (Some oc')
    from convert_column_Some(1)[OF sc] convert_column_Some(1)[OF oc] sc oc
      periods_assigned_convert[OF sc, of "''cohort_group''" "''M''"]
      periods_assigned_convert[OF oc, of "''order_period''" "''M''"]
    show ?thesis
      by (simp add: analyze_revenue_cohorts_tables_def cohort_columns_assigned_def
            dates_converted_def columns_assigned_one)
  qed
qed

lemma convert_column_parsed:
  assumes "dates_parsed c df"
  shows "convert_column parse c df = Inr df \<or> convert_column parse c df = Inl KeyError"
proof (cases "map_of df c")
  case None
  then show ?thesis by (simp add: convert_column_def get_column_def)
next
  case (Some col)
  with assms have "list_all is_datetime col" "distinct (map fst df)"
    by (simp_all add: dates_parsed_def)
  with Some show ?thesis
    by (simp add: convert_column_def get_column_def to_datetime_parsed set_column_same)
qed

lemma parsed_tables_unchanged:
  assumes "dates_parsed ''order_date'' orders_df" "dates_parsed ''signup_date'' customers_df"
  shows "fst (calculate_rfm_scores_tables parse orders_df customers_df) = (orders_df, customers_df)"
    and "fst (calculate_historical_clv_tables parse orders_df customers_df) = (orders_df, customers_df)"
    and "fst (calculate_predictive_clv_tables self parse orders_df) = orders_df"
  using convert_column_parsed[OF assms(1), of parse] convert_column_parsed[OF assms(2), of parse]
  by (auto simp: calculate_rfm_scores_tables_def calculate_historical_clv_tables_def
        calculate_predictive_clv_tables_def split: option.splits)


text \<open>
  C3, as claimed, fails for each of the five operations. On tables whose dates are
  \<^verbatim>\<open>date\<close> objects, \<^verbatim>\<open>calculate_rfm_scores\<close> leaves the caller's orders table with
  datetimes in \<open>order_date\<close>, \<^verbatim>\<open>calculate_historical_clv\<close> both tables,
  \<^verbatim>\<open>calculate_predictive_clv\<close> (after the historical calculation) the orders table, and the
  two cohort operations leave both tables with converted dates and one more column each.
  The cohort operations add these columns also to tables whose dates are datetimes
  already.
\<close>

theorem operations_change_input_tables:
  "fst (calculate_rfm_scores_tables (\<lambda>s. None) ex_orders_raw ex_customers_raw)
     = (ex_orders_df, ex_customers_raw)
   \<and> fst (calculate_historical_clv_tables (\<lambda>s. None) ex_orders_raw ex_customers_raw)
     = (ex_orders_df, ex_customers_df)
   \<and> fst (calculate_predictive_clv_tables ex_clv_historical (\<lambda>s. None) ex_orders_raw)
     = ex_orders_df
   \<and> fst (create_signup_cohorts_tables ex_cohort (\<lambda>s. None) ex_customers_raw ex_orders_raw)
     = (ex_orders_df @ [(''order_period'', [Period 0])],
        ex_customers_df @ [(''cohort_group'', [Period 0, Period 0])])
   \<and> fst (analyze_revenue_cohorts_tables ex_cohort (\<lambda>s. None) ex_customers_raw ex_orders_raw)
     = (ex_orders_df @ [(''order_period'', [Period 0])],
        ex_customers_df @ [(''cohort_group'', [Period 0, Period 0])])
   \<and> fst (create_signup_cohorts_tables ex_cohort (\<lambda>s. None) ex_customers_df ex_orders_df)
     = (ex_orders_df @ [(''order_period'', [Period 0])],
        ex_customers_df @ [(''cohort_group'', [Period 0, Period 0])])
   \<and> ex_orders_df \<noteq> ex_orders_raw
   \<and> ex_customers_df \<noteq> ex_customers_raw"
  by code_simp

text \<open>
  C3, amended: an operation changes the tables it is passed only by the column
  assignments it makes on them. An assignment sets one named column, in its place when
  the table has the column and after the last column when it has not, and leaves the
  cells and the order of every other column.
  \<^item> \<^verbatim>\<open>calculate_rfm_scores\<close> replaces \<open>order_date\<close> of the orders table by its datetime
    conversion and leaves the customers table as it was.
  \<^item> \<^verbatim>\<open>calculate_historical_clv\<close> replaces \<open>order_date\<close> of the orders table and then
    \<open>signup_date\<close> of the customers table by their datetime conversions.
  \<^item> \<^verbatim>\<open>calculate_predictive_clv\<close> replaces \<open>order_date\<close> of the orders table by its
    datetime conversion when a CLV table is stored, and changes nothing when none is.
  \<^item> \<^verbatim>\<open>create_signup_cohorts\<close>, for every period type, and \<^verbatim>\<open>analyze_revenue_cohorts\<close> of a
    monthly analyzer replace \<open>signup_date\<close> and \<open>order_date\<close> by their datetime
    conversions and set \<open>cohort_group\<close> of the customers table and \<open>order_period\<close> of the
    orders table to the periods of the converted dates.
  \<^item> \<^verbatim>\<open>analyze_revenue_cohorts\<close> of an analyzer that is not monthly only converts the two
    date columns.
  \<^item> A conversion that raises keeps the assignments made before it, and none is made
    after it.
  \<^item> Tables with distinct column names whose date columns hold datetimes already are left
    exactly as they were by the RFM and CLV operations.
\<close>

theorem operations_assign_columns_in_place:
  "(dates_converted parse ''order_date'' orders_df
      (fst (fst (calculate_rfm_scores_tables parse orders_df customers_df)))
    \<and> snd (fst (calculate_rfm_scores_tables parse orders_df customers_df)) = customers_df)
   \<and> (dates_converted parse ''order_date'' orders_df
        (fst (fst (calculate_historical_clv_tables parse orders_df customers_df)))
      \<and> (if converted_column parse ''order_date'' orders_df = None
          then snd (fst (calculate_historical_clv_tables parse orders_df customers_df))
                 = customers_df
          else dates_converted parse ''signup_date'' customers_df
                 (snd (fst (calculate_historical_clv_tables parse orders_df customers_df)))))
   \<and> (if clv_data clv = None
       then fst (calculate_predictive_clv_tables clv parse orders_df) = orders_df
       else dates_converted parse ''order_date'' orders_df
              (fst (calculate_predictive_clv_tables clv parse orders_df)))
   \<and> (case fst (create_signup_cohorts_tables self parse customers_df orders_df) of
        (orders', customers') \<Rightarrow>
          cohort_columns_assigned parse (period_freq (period_type self))
            customers_df orders_df customers' orders')
   \<and> (case fst (analyze_revenue_cohorts_tables self parse customers_df orders_df) of
        (orders', customers') \<Rightarrow>
          if period_type self = ''monthly''
          then cohort_columns_assigned parse ''M'' customers_df orders_df customers' orders'
          else if converted_column parse ''signup_date'' customers_df = None
          then customers' = customers_df \<and> orders' = orders_df
          else dates_converted parse ''signup_date'' customers_df customers'
               \<and> dates_converted parse ''order_date'' orders_df orders')
   \<and> (dates_parsed ''order_date'' orders_df \<and> dates_parsed ''signup_date'' customers_df \<longrightarrow>
        fst (calculate_rfm_scores_tables parse orders_df customers_df) = (orders_df, customers_df)
        \<and> fst (calculate_historical_clv_tables parse orders_df customers_df)
            = (orders_df, customers_df)
        \<and> fst (calculate_predictive_clv_tables clv parse orders_df) = orders_df)"
proof -
  note rfm_tables[where parse = parse and orders_df = orders_df and customers_df = customers_df]
  moreover note historical_tables[where parse = parse and orders_df = orders_df
      and customers_df = customers_df]
  moreover note predictive_tables[where self = clv and parse = parse and orders_df = orders_df]
  moreover note signup_cohorts_tables[where self = self and parse = parse
      and orders_df = orders_df and customers_df = customers_df]
  moreover note revenue_cohorts_tables[where self = self and parse = parse
      and orders_df = orders_df and customers_df = customers_df]
  moreover have "dates_parsed ''order_date'' orders_df \<and> dates_parsed ''signup_date'' customers_df \<longrightarrow>
        fst (calculate_rfm_scores_tables parse orders_df customers_df) = (orders_df, customers_df)
        \<and> fst (calculate_historical_clv_tables parse orders_df customers_df)
            = (orders_df, customers_df)
        \<and> fst (calculate_predictive_clv_tables clv parse orders_df) = orders_df"
    using parsed_tables_unchanged(1)[where parse = parse and orders_df = orders_df
        and customers_df = customers_df]
      parsed_tables_unchanged(2)[where parse = parse and orders_df = orders_df
        and customers_df = customers_df]
      parsed_tables_unchanged(3)[where self = clv and parse = parse and orders_df = orders_df
        and customers_df = customers_df]
    by blast
  ultimately show ?thesis by blast
qed

lemma ex_tables_parsed:
  "dates_parsed ''order_date'' ex_orders_df \<and> dates_parsed ''signup_date'' ex_customers_df"
  by code_simp

lemma ex_raw_conversions:
  "converted_column (\<lambda>s. None) ''order_date'' ex_orders_raw = Some [Datetime (timedelta 14)]"
  "converted_column (\<lambda>s. None) ''signup_date'' ex_customers_raw
     = Some [Datetime (timedelta 9), Datetime (timedelta 10)]"
  by code_simp+

lemma ex_raw_names:
  "map fst ex_orders_raw = [''order_id'', ''customer_id'', ''order_date'', ''final_amount'']"
  "map fst ex_customers_raw = [''customer_id'', ''signup_date'']"
  "''order_date'' \<in> fst ` set ex_orders_raw"
  "''order_period'' \<notin> fst ` set ex_orders_raw"
  "''signup_date'' \<in> fst ` set ex_customers_raw"
  "''cohort_group'' \<notin> fst ` set ex_customers_raw"
  by (simp_all add: ex_orders_raw_def ex_customers_raw_def)

lemma ex_weekly_periods:
  "period_freq (period_type ex_cohort_weekly) = ''W''"
  "period_type ex_cohort_weekly \<noteq> ''monthly''"
  "period_cell ''W'' (Datetime (timedelta 9)) = Period 1"
  "period_cell ''W'' (Datetime (timedelta 10)) = Period 1"
  "clv_data ex_clv = None"
  by code_simp+

text \<open>
  On the example tables with \<^verbatim>\<open>date\<close> objects: \<^verbatim>\<open>calculate_rfm_scores\<close> leaves datetimes in
  \<open>order_date\<close> and the customers table as it was, \<^verbatim>\<open>calculate_predictive_clv\<close> on an
  analyzer without a CLV table changes nothing, a weekly \<^verbatim>\<open>create_signup_cohorts\<close> adds
  \<open>cohort_group\<close> with the weeks of the signups and a weekly \<^verbatim>\<open>analyze_revenue_cohorts\<close>
  adds no column. The example tables with datetimes are returned as they were by the RFM
  and CLV operations.
\<close>

theorem operations_assign_columns_in_place_witness:
  "map_of (fst (fst (calculate_rfm_scores_tables (\<lambda>s. None) ex_orders_raw ex_customers_raw)))
      ''order_date'' = Some [Datetime (timedelta 14)]
   \<and> snd (fst (calculate_rfm_scores_tables (\<lambda>s. None) ex_orders_raw ex_customers_raw))
      = ex_customers_raw
   \<and> fst (calculate_predictive_clv_tables ex_clv (\<lambda>s. None) ex_orders_raw) = ex_orders_raw
   \<and> map fst (snd (fst (create_signup_cohorts_tables ex_cohort_weekly (\<lambda>s. None)
        ex_customers_raw ex_orders_raw))) = [''customer_id'', ''signup_date'', ''cohort_group'']
   \<and> map_of (snd (fst (create_signup_cohorts_tables ex_cohort_weekly (\<lambda>s. None)
        ex_customers_raw ex_orders_raw))) ''cohort_group'' = Some [Period 1, Period 1]
   \<and> map fst (snd (fst (analyze_revenue_cohorts_tables ex_cohort_weekly (\<lambda>s. None)
        ex_customers_raw ex_orders_raw))) = [''customer_id'', ''signup_date'']
   \<and> fst (calculate_rfm_scores_tables (\<lambda>s. None) ex_orders_df ex_customers_df)
      = (ex_orders_df, ex_customers_df)
   \<and> fst (calculate_historical_clv_tables (\<lambda>s. None) ex_orders_df ex_customers_df)
      = (ex_orders_df, ex_customers_df)"
proof -
  note raw = operations_assign_columns_in_place[where parse = "\<lambda>s. None"
      and orders_df = ex_orders_raw and customers_df = ex_customers_raw and clv = ex_clv
      and self = ex_cohort_weekly]
  note parsed = operations_assign_columns_in_place[where parse = "\<lambda>s. None"
      and orders_df = ex_orders_df and customers_df = ex_customers_df and clv = ex_clv
      and self = ex_cohort_weekly]
  from raw have "map_of (fst (fst (calculate_rfm_scores_tables (\<lambda>s. None) ex_orders_raw
        ex_customers_raw))) ''order_date'' = Some [Datetime (timedelta 14)]"
    and "snd (fst (calculate_rfm_scores_tables (\<lambda>s. None) ex_orders_raw ex_customers_raw))
      = ex_customers_raw"
    by (simp_all add: dates_converted_def columns_assigned_def ex_raw_conversions)
  moreover from raw have "fst (calculate_predictive_clv_tables ex_clv (\<lambda>s. None) ex_orders_raw)
      = ex_orders_raw"
    by (simp add: ex_weekly_periods)
  moreover from raw have "map fst (snd (fst (create_signup_cohorts_tables ex_cohort_weekly
        (\<lambda>s. None) ex_customers_raw ex_orders_raw)))
        = [''customer_id'', ''signup_date'', ''cohort_group'']"
    and "map_of (snd (fst (create_signup_cohorts_tables ex_cohort_weekly (\<lambda>s. None)
        ex_customers_raw ex_orders_raw))) ''cohort_group'' = Some [Period 1, Period 1]"
    by (simp_all add: cohort_columns_assigned_def periods_assigned_def columns_assigned_def
          ex_raw_conversions ex_raw_names ex_weekly_periods split: prod.splits)
  moreover from raw have "map fst (snd (fst (analyze_revenue_cohorts_tables ex_cohort_weekly
        (\<lambda>s. None) ex_customers_raw ex_orders_raw))) = [''customer_id'', ''signup_date'']"
    by (simp add: dates_converted_def columns_assigned_def ex_raw_conversions ex_raw_names
          ex_weekly_periods split: prod.splits)
  moreover from parsed ex_tables_parsed
  have "fst (calculate_rfm_scores_tables (\<lambda>s. None) ex_orders_df ex_customers_df)
      = (ex_orders_df, ex_customers_df)"
    and "fst (calculate_historical_clv_tables (\<lambda>s. None) ex_orders_df ex_customers_df)
      = (ex_orders_df, ex_customers_df)"
    by blast+
  ultimately show ?thesis by (intro conjI)
qed

end
